theory Spec2Isabelle
  imports Main "HOL-Library.Word"
begin

unbundle bit_operations_syntax

section \<open>Data model of protocol.go\<close>

type_synonym byte = "8 word"

text \<open>
  \<^verbatim>\<open>netProtobuf\<close> holds the message type (a Go \<^verbatim>\<open>int\<close>) and the payload (a Go
  \<^verbatim>\<open>[]byte\<close>). A Go slice may be \<^verbatim>\<open>nil\<close>, and the code tests for it
  (\<^verbatim>\<open>pb.payload == nil\<close>), so the payload is an option: \<open>None\<close> is the nil slice,
  \<open>Some []\<close> an empty slice that is not nil. Go's \<^verbatim>\<open>int\<close> is taken as the 64-bit
  type of the usual targets and modelled by \<open>int\<close>: no value computed here leaves its range.
\<close>

record netProtobuf =
  msgType :: int
  payload :: "byte list option"

text \<open>The bytes of a slice: \<^verbatim>\<open>len\<close>, \<^verbatim>\<open>Write\<close> and \<^verbatim>\<open>proto.Unmarshal\<close> see a nil
  slice as the empty byte sequence.\<close>

definition bytes_of :: "byte list option \<Rightarrow> byte list" where
  "bytes_of p = (case p of None \<Rightarrow> [] | Some bs \<Rightarrow> bs)"

subsection \<open>Decoded protobuf messages\<close>

text \<open>
  The generated message types (packages \<^verbatim>\<open>Mysqlx\<close>, \<^verbatim>\<open>Mysqlx_Datatypes\<close>,
  \<^verbatim>\<open>Mysqlx_Connection\<close>, \<^verbatim>\<open>Mysqlx_Notice\<close>, \<^verbatim>\<open>Mysqlx_Session\<close>) are structs of
  pointer fields. A field the code reads by dereference or by direct selection is an
  option here (\<open>None\<close> is the nil pointer); a field the code reads only through its
  nil-safe getter holds the getter's result.
\<close>

datatype Scalar_Type =
  V_SINT | V_UINT | V_NULL | V_OCTETS | V_DOUBLE | V_FLOAT | V_BOOL | V_STRING

datatype Any_Type = Any_SCALAR | Any_OBJECT | Any_ARRAY

record Scalar =
  sType :: "Scalar_Type option"
  VString :: "string option"
  VBool :: "bool option"

datatype Any = Any (aType: "Any_Type option") (aScalar: "Scalar option") (aArray: "Any list")

record Capability =
  capName :: string
  capValue :: "Any option"

datatype Severity = Severity_ERROR | Severity_FATAL

record MysqlxError =
  eSeverity :: "Severity option"
  eCode :: "nat option"
  eSqlState :: "string option"
  eMsg :: "string option"

datatype Warning_Level = Level_NOTE | Level_WARNING | Level_ERROR

record NoticeFrame =
  fType :: nat
  fScope :: int
  fPayload :: "byte list"

record Warning =
  wLevel :: Warning_Level
  wCode :: nat
  wMsg :: string

record SessionVariableChanged =
  svParam :: string
  svValue :: "Scalar option"

record SessionStateChanged =
  ssParam :: int
  ssValue :: "Scalar option"

subsection \<open>Errors, formatted text and outcomes\<close>

text \<open>
  An error built by \<^verbatim>\<open>fmt.Errorf\<close> and a line given to \<^verbatim>\<open>debug.Msg\<close> or
  \<^verbatim>\<open>log.Fatalf\<close> are kept as the format string with its arguments.
  \<open>ErrTransport\<close> is an error signalled by the byte stream, \<open>ErrCodec\<close> one returned
  by \<^verbatim>\<open>proto.Marshal\<close> or \<^verbatim>\<open>proto.Unmarshal\<close>.
\<close>

datatype error =
    ErrBadConn
  | ErrMalformPkt
  | ErrPktTooLarge
  | ErrTransport
  | ErrCodec string
  | Errorf string "fmtarg list"
and fmtarg =
    ArgInt int
  | ArgStr string
  | ArgBool bool
  | ArgBytes "byte list"
  | ArgAny "Any option"
  | ArgScalar "Scalar option"
  | ArgStrs "string list"
  | ArgCaps "Capability list"
  | ArgFmt string "fmtarg list"
  | ArgErr error
  | ArgNil

text \<open>
  What a call does: it returns a value (\<open>Ok\<close>), returns a non-nil Go error (\<open>Err\<close>),
  ends the process through \<^verbatim>\<open>log.Fatal\<close> or \<^verbatim>\<open>log.Fatalf\<close> (\<open>Fatal\<close>), or
  panics on a nil dereference or an index out of range (\<open>Panic\<close>).
\<close>

datatype 'a outcome =
    Ok 'a
  | Err error
  | Fatal string "fmtarg list"
  | Panic

subsection \<open>The connection\<close>

datatype CapabilityValue =
    CapScalarString string
  | CapScalarBool bool
  | CapArrayString "string list"

text \<open>
  \<^verbatim>\<open>mysqlXConn\<close>, with the collaborators it owns written out as state:
  \<open>inbytes\<close> is what the peer has sent and \<^verbatim>\<open>mc.buf\<close> has yet to hand out,
  \<open>written\<close> is what has been written to \<^verbatim>\<open>mc.netConn\<close>, \<open>wlimit\<close> is how many more
  bytes the transport takes before its \<^verbatim>\<open>Write\<close> fails (\<open>None\<close>: it never fails),
  \<open>errlog\<close> is what \<^verbatim>\<open>errLog.Print\<close> received and \<open>dbg\<close> what \<^verbatim>\<open>debug.Msg\<close> and
  \<^verbatim>\<open>debug.MsgProtobuf\<close> received.
\<close>

record mysqlXConn =
  inbytes :: "byte list"
  written :: "byte list"
  wlimit :: "nat option"
  closed :: bool
  maxPacketAllowed :: int
  pb :: "netProtobuf option"
  capabilities :: "string \<rightharpoonup> CapabilityValue"
  cfg_dbname :: string
  cfg_user :: string
  cfg_passwd :: string
  errlog :: "error list"
  dbg :: "(string \<times> fmtarg list) list"

definition debugMsg :: "string \<Rightarrow> fmtarg list \<Rightarrow> mysqlXConn \<Rightarrow> mysqlXConn" where
  "debugMsg f args mc = mc\<lparr>dbg := dbg mc @ [(f, args)]\<rparr>"

definition errLogPrint :: "error \<Rightarrow> mysqlXConn \<Rightarrow> mysqlXConn" where
  "errLogPrint e mc = mc\<lparr>errlog := errlog mc @ [e]\<rparr>"

text \<open>
  Modelled from the spec: \<^verbatim>\<open>mysqlXConn.Close\<close> (its file is not among the sources).
  The spec has a fatal condition discard the transport, with no resynchronisation:
  closing marks the connection closed and touches neither stream.
\<close>

definition Close :: "mysqlXConn \<Rightarrow> mysqlXConn" where
  "Close mc = mc\<lparr>closed := True\<rparr>"

text \<open>
  Modelled from the spec: \<^verbatim>\<open>mc.buf.readNext\<close> (the buffer's file is not among the
  sources), the spec's blocking \<^verbatim>\<open>read(n) -> bytes\<close> with its own error signalling.
  It hands out exactly \<open>n\<close> bytes, or fails when the stream ends before that.
\<close>

definition readNext :: "int \<Rightarrow> mysqlXConn \<Rightarrow> (error + byte list) \<times> mysqlXConn" where
  "readNext n mc =
     (if int (length (inbytes mc)) < n then (Inl ErrTransport, mc\<lparr>inbytes := []\<rparr>)
      else (Inr (take (nat n) (inbytes mc)), mc\<lparr>inbytes := drop (nat n) (inbytes mc)\<rparr>))"

text \<open>
  Modelled from the spec: \<^verbatim>\<open>mc.netConn.Write\<close>, the spec's blocking
  \<^verbatim>\<open>write(bytes)\<close> with its own error signalling. It returns the number of bytes
  written and whether it failed; a closed connection takes nothing.
\<close>

definition netWrite :: "byte list \<Rightarrow> mysqlXConn \<Rightarrow> (int \<times> bool) \<times> mysqlXConn" where
  "netWrite data mc =
     (if closed mc then ((0, True), mc)
      else case wlimit mc of
        None \<Rightarrow> ((int (length data), False), mc\<lparr>written := written mc @ data\<rparr>)
      | Some k \<Rightarrow>
          if length data \<le> k
          then ((int (length data), False),
                mc\<lparr>written := written mc @ data, wlimit := Some (k - length data)\<rparr>)
          else ((int k, True),
                mc\<lparr>written := written mc @ take k data, wlimit := Some 0\<rparr>))"

text \<open>
  Modelled from the spec: the constant \<^verbatim>\<open>minPacketSize\<close> (declared outside the
  sources): a header value below 1 is malformed, since the length covers the type byte.
\<close>

definition minPacketSize :: int where
  "minPacketSize = 1"

section \<open>Frame codec\<close>

text \<open>
  \<^verbatim>\<open>readMsg\<close>. The header is assembled in \<^verbatim>\<open>uint32\<close> and converted to \<^verbatim>\<open>int\<close>.
  The function never returns a nil frame with a nil error, so the callers' test
  \<^verbatim>\<open>pb == nil\<close> after a successful read has no branch here.
\<close>

definition pktLen_of :: "byte \<Rightarrow> byte \<Rightarrow> byte \<Rightarrow> byte \<Rightarrow> int" where
  "pktLen_of d0 d1 d2 d3 =
     uint ((ucast d0 :: 32 word) OR push_bit 8 (ucast d1) OR push_bit 16 (ucast d2)
           OR push_bit 24 (ucast d3))"

definition readMsg :: "mysqlXConn \<Rightarrow> netProtobuf outcome \<times> mysqlXConn" where
  "readMsg mc =
     (case readNext 4 mc of
        (Inl err, mc1) \<Rightarrow> (Err ErrBadConn, Close (errLogPrint err mc1))
      | (Inr hdr, mc1) \<Rightarrow>
          (case hdr of
             [d0, d1, d2, d3] \<Rightarrow>
               (let pktLen = pktLen_of d0 d1 d2 d3 in
                if pktLen < minPacketSize
                then (Err ErrBadConn, Close (errLogPrint ErrMalformPkt mc1))
                else
                  (case readNext pktLen mc1 of
                     (Inl err, mc2) \<Rightarrow> (Err ErrBadConn, Close (errLogPrint err mc2))
                   | (Inr data, mc2) \<Rightarrow>
                       (case data of
                          [] \<Rightarrow> (Panic, mc2)
                        | t # rest \<Rightarrow>
                            (let p = (if length data > 1 then Some rest else None) in
                             (Ok \<lparr>msgType = uint t, payload = p\<rparr>,
                              debugMsg ''S -> C: len: %d, type: %d [%s], payload: %+v''
                                [ArgInt (5 + int (length (bytes_of p))), ArgInt (uint t),
                                 ArgInt (uint t), ArgBytes (bytes_of p)] mc2)))))
           | _ \<Rightarrow> (Panic, mc1)))"

text \<open>
  \<^verbatim>\<open>writeProtobufPacket\<close>. The argument is a pointer, so it is an option. \<^verbatim>\<open>byte(x)\<close>
  keeps the low 8 bits of \<open>x\<close>; \<^verbatim>\<open>x >> k\<close> on a Go \<^verbatim>\<open>int\<close> is the arithmetic shift.
  The second test reads \<^verbatim>\<open>err != nil && n != size\<close> with \<^verbatim>\<open>size = pktLen\<close>.
\<close>

definition writeProtobufPacket ::
  "netProtobuf option \<Rightarrow> mysqlXConn \<Rightarrow> unit outcome \<times> mysqlXConn" where
  "writeProtobufPacket pbo mc =
     (case pbo of
        None \<Rightarrow> (Err ErrMalformPkt, Close mc)
      | Some p \<Rightarrow>
          if msgType p > 255 then (Err ErrMalformPkt, Close mc)
          else
            (let mc0 = debugMsg ''C -> S: len: %d, type: %d [%s], payload: %+v''
                         [ArgInt (5 + int (length (bytes_of (payload p)))), ArgInt (msgType p),
                          ArgInt (msgType p), ArgBytes (bytes_of (payload p))] mc;
                 pktLen = int (length (bytes_of (payload p))) + 1 in
             if pktLen > maxPacketAllowed mc0 then (Err ErrPktTooLarge, mc0)
             else
               (let data = [word_of_int pktLen, word_of_int (drop_bit 8 pktLen),
                            word_of_int (drop_bit 16 pktLen), word_of_int (drop_bit 24 pktLen),
                            word_of_int (msgType p)] :: byte list;
                    size = pktLen in
                case netWrite data mc0 of
                  ((n, err), mc1) \<Rightarrow>
                    if err \<or> n \<noteq> 5
                    then (Err (Errorf
                            ''Error writing protobuf header to socket, wrote %d of 5 bytes: %v''
                            [ArgInt n, if err then ArgErr ErrTransport else ArgNil]), mc1)
                    else
                      (case netWrite (bytes_of (payload p)) mc1 of
                         ((n2, err2), mc2) \<Rightarrow>
                           if err2 \<and> n2 \<noteq> size
                           then (Err (Errorf
                                   ''Error writing protobuf body to socket, wrote %d of %d bytes: %v''
                                   [ArgInt n2, ArgInt size, ArgErr ErrTransport]), mc2)
                           else (Ok (), mc2)))))"


section \<open>External collaborators\<close>

text \<open>
  The schema codec (\<^verbatim>\<open>proto.Marshal\<close>, \<^verbatim>\<open>proto.Unmarshal\<close> on the generated message
  types) and the MYSQL41 credential computation (\<^verbatim>\<open>NewMySQL41\<close>) are not part of
  protocol.go. They are parameters of the model: every function that calls them takes
  the record \<open>env\<close>. \<open>Inl\<close> is the error the collaborator returns.
\<close>

record MySQL41 =
  GetInitialAuthData :: "byte list"
  GetNextAuthData :: "byte list \<Rightarrow> error + byte list"

record env =
  unmarshal_Error :: "byte list \<Rightarrow> error + MysqlxError"
  unmarshal_Frame :: "byte list \<Rightarrow> error + NoticeFrame"
  unmarshal_Warning :: "byte list \<Rightarrow> error + Warning"
  unmarshal_SessionVariableChanged :: "byte list \<Rightarrow> error + SessionVariableChanged"
  unmarshal_SessionStateChanged :: "byte list \<Rightarrow> error + SessionStateChanged"
  unmarshal_Capabilities :: "byte list \<Rightarrow> error + Capability list"
  unmarshal_AuthenticateContinue :: "byte list \<Rightarrow> error + byte list"
  unmarshal_AuthenticateOk :: "byte list \<Rightarrow> error + byte list"
  marshal_CapabilitiesSet :: "Capability list \<Rightarrow> error + byte list"
  marshal_AuthenticateStart :: "string \<Rightarrow> byte list \<Rightarrow> error + byte list"
  marshal_AuthenticateContinue :: "byte list \<Rightarrow> error + byte list"
  NewMySQL41 :: "string \<Rightarrow> string \<Rightarrow> string \<Rightarrow> MySQL41"

text \<open>
  Modelled from the spec: the message catalog of the two directions. The enumerations
  \<^verbatim>\<open>Mysqlx.ServerMessages_Type\<close> and \<^verbatim>\<open>Mysqlx.ClientMessages_Type\<close> are generated code
  outside the sources; the codes are those of the X Protocol.
\<close>

definition ServerMessages_OK :: int where "ServerMessages_OK = 0"
definition ServerMessages_ERROR :: int where "ServerMessages_ERROR = 1"
definition ServerMessages_CONN_CAPABILITIES :: int where "ServerMessages_CONN_CAPABILITIES = 2"
definition ServerMessages_SESS_AUTHENTICATE_CONTINUE :: int where
  "ServerMessages_SESS_AUTHENTICATE_CONTINUE = 3"
definition ServerMessages_SESS_AUTHENTICATE_OK :: int where
  "ServerMessages_SESS_AUTHENTICATE_OK = 4"
definition ServerMessages_NOTICE :: int where "ServerMessages_NOTICE = 11"

definition ClientMessages_CON_CAPABILITIES_GET :: int where
  "ClientMessages_CON_CAPABILITIES_GET = 1"
definition ClientMessages_CON_CAPABILITIES_SET :: int where
  "ClientMessages_CON_CAPABILITIES_SET = 2"
definition ClientMessages_SESS_AUTHENTICATE_START :: int where
  "ClientMessages_SESS_AUTHENTICATE_START = 4"
definition ClientMessages_SESS_AUTHENTICATE_CONTINUE :: int where
  "ClientMessages_SESS_AUTHENTICATE_CONTINUE = 5"

text \<open>
  Sequencing: \<open>obind r s f\<close> goes on with \<open>f\<close> when the call returned a value, and
  otherwise stops with the call's error, exit or panic in the state \<open>s\<close>.
\<close>

fun obind :: "'a outcome \<Rightarrow> 's \<Rightarrow> ('a \<Rightarrow> 'b outcome \<times> 's) \<Rightarrow> 'b outcome \<times> 's" where
  "obind (Ok a) s f = f a"
| "obind (Err e) s f = (Err e, s)"
| "obind (Fatal m args) s f = (Fatal m args, s)"
| "obind Panic s f = (Panic, s)"

section \<open>Helpers on \<^verbatim>\<open>Mysqlx_Datatypes.Any\<close>\<close>

text \<open>The generated getters return the default of the field when the pointer is nil.\<close>

definition Any_GetType :: "Any \<Rightarrow> Any_Type" where
  "Any_GetType v = (case aType v of None \<Rightarrow> Any_SCALAR | Some t \<Rightarrow> t)"

definition Scalar_GetType :: "Scalar option \<Rightarrow> Scalar_Type" where
  "Scalar_GetType so =
     (case so of None \<Rightarrow> V_SINT
      | Some sc \<Rightarrow> (case sType sc of None \<Rightarrow> V_SINT | Some t \<Rightarrow> t))"

text \<open>\<^verbatim>\<open>*value.Type\<close> and \<^verbatim>\<open>*value.Scalar.Type\<close> dereference, with \<^verbatim>\<open>&&\<close> evaluated
  from the left.\<close>

definition isScalar :: "Any option \<Rightarrow> bool outcome" where
  "isScalar value =
     (case value of None \<Rightarrow> Ok False
      | Some v \<Rightarrow> (case aType v of None \<Rightarrow> Panic | Some t \<Rightarrow> Ok (t = Any_SCALAR)))"

definition isScalarOfType :: "Scalar_Type \<Rightarrow> Any option \<Rightarrow> bool outcome" where
  "isScalarOfType st value =
     (case value of None \<Rightarrow> Ok False
      | Some v \<Rightarrow>
          (case aType v of None \<Rightarrow> Panic
           | Some t \<Rightarrow>
               if t \<noteq> Any_SCALAR then Ok False
               else (case aScalar v of None \<Rightarrow> Panic
                     | Some sc \<Rightarrow> (case sType sc of None \<Rightarrow> Panic | Some t' \<Rightarrow> Ok (t' = st)))))"

definition isScalarString :: "Any option \<Rightarrow> bool outcome" where
  "isScalarString value = isScalarOfType V_STRING value"

definition isScalarBool :: "Any option \<Rightarrow> bool outcome" where
  "isScalarBool value = isScalarOfType V_BOOL value"

definition scalarString :: "Any option \<Rightarrow> string outcome" where
  "scalarString value =
     (case isScalarString value of
        Ok b \<Rightarrow>
          if \<not> b then Ok []
          else (case value of None \<Rightarrow> Panic
                | Some v \<Rightarrow> (case aScalar v of None \<Rightarrow> Panic
                    | Some sc \<Rightarrow> (case VString sc of None \<Rightarrow> Panic | Some str \<Rightarrow> Ok str)))
      | Err e \<Rightarrow> Err e | Fatal m args \<Rightarrow> Fatal m args | Panic \<Rightarrow> Panic)"

definition scalarBool :: "Any option \<Rightarrow> bool outcome" where
  "scalarBool value =
     (case isScalarBool value of
        Ok b \<Rightarrow>
          if \<not> b then Ok False
          else (case value of None \<Rightarrow> Panic
                | Some v \<Rightarrow> (case aScalar v of None \<Rightarrow> Panic
                    | Some sc \<Rightarrow> (case VBool sc of None \<Rightarrow> Panic | Some x \<Rightarrow> Ok x)))
      | Err e \<Rightarrow> Err e | Fatal m args \<Rightarrow> Fatal m args | Panic \<Rightarrow> Panic)"

definition isArrayString :: "Any option \<Rightarrow> bool" where
  "isArrayString value =
     (case value of None \<Rightarrow> False
      | Some v \<Rightarrow>
          if Any_GetType v \<noteq> Any_ARRAY then False
          else list_all (\<lambda>x. Any_GetType x = Any_SCALAR \<and> Scalar_GetType (aScalar x) = V_STRING)
                 (aArray v))"

fun scalarStrings :: "Any list \<Rightarrow> string list \<Rightarrow> string list outcome" where
  "scalarStrings [] values = Ok values"
| "scalarStrings (x # xs) values =
     (case scalarString (Some x) of
        Ok str \<Rightarrow> scalarStrings xs (values @ [str])
      | Err e \<Rightarrow> Err e | Fatal m args \<Rightarrow> Fatal m args | Panic \<Rightarrow> Panic)"

text \<open>\<^verbatim>\<open>arrayString\<close>: \<open>None\<close> is the nil slice it returns for anything but an array of
  strings.\<close>

definition arrayString :: "Any option \<Rightarrow> string list option outcome" where
  "arrayString value =
     (if \<not> isArrayString value then Ok None
      else (case value of None \<Rightarrow> Ok None
            | Some v \<Rightarrow>
                (case scalarStrings (aArray v) [] of
                   Ok values \<Rightarrow> Ok (Some values)
                 | Err e \<Rightarrow> Err e | Fatal m args \<Rightarrow> Fatal m args | Panic \<Rightarrow> Panic)))"

definition Scalar_Type_String :: "Scalar_Type \<Rightarrow> string" where
  "Scalar_Type_String t =
     (case t of V_SINT \<Rightarrow> ''V_SINT'' | V_UINT \<Rightarrow> ''V_UINT'' | V_NULL \<Rightarrow> ''V_NULL''
      | V_OCTETS \<Rightarrow> ''V_OCTETS'' | V_DOUBLE \<Rightarrow> ''V_DOUBLE'' | V_FLOAT \<Rightarrow> ''V_FLOAT''
      | V_BOOL \<Rightarrow> ''V_BOOL'' | V_STRING \<Rightarrow> ''V_STRING'')"

definition newBoolScalar :: "bool \<Rightarrow> Scalar" where
  "newBoolScalar value = \<lparr>sType = Some V_BOOL, VString = None, VBool = Some value\<rparr>"

definition newAnyScalar :: "Any_Type \<Rightarrow> Scalar \<Rightarrow> Any" where
  "newAnyScalar anyType scalar = Any (Some anyType) (Some scalar) []"


section \<open>Error decoder\<close>

text \<open>
  \<^verbatim>\<open>errorText\<close>. \<^verbatim>\<open>*(e.Code)\<close>, \<^verbatim>\<open>*(e.SqlState)\<close> and \<^verbatim>\<open>*(e.Msg)\<close> dereference;
  \<^verbatim>\<open>e.Severity\<close> is printed with \<^verbatim>\<open>%v\<close>, which shows a nil pointer as \<^verbatim>\<open><nil>\<close>.
  The result is the error value the function returns.
\<close>

definition Severity_String :: "Severity \<Rightarrow> string" where
  "Severity_String sv = (case sv of Severity_ERROR \<Rightarrow> ''ERROR'' | Severity_FATAL \<Rightarrow> ''FATAL'')"

definition errorText :: "MysqlxError option \<Rightarrow> error outcome" where
  "errorText eo =
     (case eo of
        None \<Rightarrow> Ok (Errorf ''errorText: ERROR e == nil'' [])
      | Some e \<Rightarrow>
          (case eCode e of None \<Rightarrow> Panic
           | Some c \<Rightarrow>
               (case eSqlState e of None \<Rightarrow> Panic
                | Some st \<Rightarrow>
                    (case eMsg e of None \<Rightarrow> Panic
                     | Some m \<Rightarrow>
                         Ok (Errorf ''%v: %04d [%s] %s''
                               [case eSeverity e of None \<Rightarrow> ArgNil
                                | Some sv \<Rightarrow> ArgStr (Severity_String sv),
                                ArgInt (int c), ArgStr st, ArgStr m])))))"

text \<open>The method \<^verbatim>\<open>(pb *netProtobuf) errorMsg\<close>.\<close>

definition netProtobuf_errorMsg :: "env \<Rightarrow> netProtobuf option \<Rightarrow> error outcome" where
  "netProtobuf_errorMsg E pbo =
     (case pbo of
        None \<Rightarrow> Ok (Errorf ''errorMsg: ERROR pb == nil'' [])
      | Some p \<Rightarrow>
          if msgType p \<noteq> ServerMessages_ERROR
          then Ok (Errorf ''errorMsg: ERROR msgType = %d, expecting ERROR (%d)''
                     [ArgInt (msgType p), ArgInt ServerMessages_ERROR])
          else (case unmarshal_Error E (bytes_of (payload p)) of
                  Inl err \<Rightarrow> Ok (Errorf ''unmarshaling error with e: %+v'' [ArgErr err])
                | Inr e \<Rightarrow> errorText (Some e)))"

text \<open>The function \<^verbatim>\<open>errorMsg(data []byte)\<close>.\<close>

definition errorMsg :: "env \<Rightarrow> byte list \<Rightarrow> error outcome" where
  "errorMsg E data =
     (case unmarshal_Error E data of
        Inl err \<Rightarrow> Fatal ''unmarshaling error with e: '' [ArgErr err]
      | Inr e \<Rightarrow> errorText (Some e))"

definition processErrorMsg :: "env \<Rightarrow> mysqlXConn \<Rightarrow> unit outcome \<times> mysqlXConn" where
  "processErrorMsg E mc =
     (case pb mc of
        None \<Rightarrow> (Err (Errorf ''processErrorMsg mc.pb == nil'' []), mc)
      | Some p \<Rightarrow>
          (case payload p of
             None \<Rightarrow> (Err (Errorf ''processErrorMsg mc.pb.payload == nil'' []), mc)
           | Some data \<Rightarrow>
               (case unmarshal_Error E data of
                  Inl err \<Rightarrow> (Err (Errorf ''unmarshaling error with e: %v'' [ArgErr err]), mc)
                | Inr e \<Rightarrow>
                    obind (errorText (Some e)) mc
                      (\<lambda>txt. (Ok (), (debugMsg ''processErrorMsg: %v: '' [ArgErr txt] mc)
                                       \<lparr>pb := None\<rparr>)))))"

definition printAuthenticateOk :: "env \<Rightarrow> byte list \<Rightarrow> mysqlXConn \<Rightarrow> unit outcome \<times> mysqlXConn"
  where
  "printAuthenticateOk E data mc =
     (case unmarshal_AuthenticateOk E data of
        Inl err \<Rightarrow> (Fatal ''unmarshaling error with AuthenticateOk: '' [ArgErr err], mc)
      | Inr okAuthData \<Rightarrow>
          (Ok (), debugMsg ''Login successful: Got back authData: %q (%d bytes)''
                    [ArgBytes okAuthData, ArgInt (int (length okAuthData))] mc))"

section \<open>Notice channel\<close>

definition mysqlxNoticeTypeName :: "nat \<rightharpoonup> string" where
  "mysqlxNoticeTypeName =
     [1 \<mapsto> ''Warning'', 2 \<mapsto> ''SessionVariableChanged'', 3 \<mapsto> ''SessionStateChanged'']"

definition noticeTypeToName :: "nat \<Rightarrow> string" where
  "noticeTypeToName t = (case mysqlxNoticeTypeName t of Some name \<Rightarrow> name | None \<Rightarrow> ''?'')"

definition Level_String :: "Warning_Level \<Rightarrow> string" where
  "Level_String l =
     (case l of Level_NOTE \<Rightarrow> ''NOTE'' | Level_WARNING \<Rightarrow> ''WARNING'' | Level_ERROR \<Rightarrow> ''ERROR'')"

text \<open>
  \<^verbatim>\<open>processNotice\<close> reads the frame left in \<^verbatim>\<open>mc.pb\<close>. The receiver \<^verbatim>\<open>mc\<close> is never
  nil here. The \<^verbatim>\<open>switch\<close> yields the text of the payload, or ends the process.
\<close>

definition processNotice :: "env \<Rightarrow> string \<Rightarrow> mysqlXConn \<Rightarrow> unit outcome \<times> mysqlXConn" where
  "processNotice E whr mc =
     (let mc1 = debugMsg ''mysqlXConn.processNotice(%q)'' [ArgStr whr] mc in
      case pb mc1 of
        None \<Rightarrow> (Fatal ''mysqlXConn.processNotice(%q): mc.pb == nil'' [ArgStr whr], mc1)
      | Some p \<Rightarrow>
          (case unmarshal_Frame E (bytes_of (payload p)) of
             Inl err \<Rightarrow> (Fatal ''error unmarshaling Notice f: %v'' [ArgErr err], mc1)
           | Inr f \<Rightarrow>
               (let finish = (\<lambda>txt m.
                      (Ok (), (debugMsg ''Received NOTICE: Type: %+v [%s], Scope: %d [%s], %s''
                                 [ArgInt (int (fType f)), ArgStr (noticeTypeToName (fType f)),
                                  ArgInt (fScope f), ArgInt (fScope f), txt] m)\<lparr>pb := None\<rparr>))
                in
                if fType f = 1 then
                  (case unmarshal_Warning E (fPayload f) of
                     Inl err \<Rightarrow> (Fatal ''error unmarshaling Warning w: %v'' [ArgErr err], mc1)
                   | Inr w \<Rightarrow>
                       finish (ArgFmt ''Level: %+v, code: %d, msg: %s''
                                 [ArgStr (Level_String (wLevel w)), ArgInt (int (wCode w)),
                                  ArgStr (wMsg w)]) mc1)
                else if fType f = 2 then
                  (case unmarshal_SessionVariableChanged E (fPayload f) of
                     Inl err \<Rightarrow>
                       (Fatal ''error unmarshaling SessionVariableChanged s: %v'' [ArgErr err], mc1)
                   | Inr sv \<Rightarrow>
                       finish (ArgFmt ''SessionVariableChanged: Param: %s, Value: %+v''
                                 [ArgStr (svParam sv), ArgScalar (svValue sv)]) mc1)
                else if fType f = 3 then
                  (case unmarshal_SessionStateChanged E (fPayload f) of
                     Inl err \<Rightarrow>
                       (Fatal ''error unmarshaling SessionStateChanged s: %v'' [ArgErr err], mc1)
                   | Inr ss \<Rightarrow>
                       finish (ArgFmt ''SessionStateChanged: Param: %s, Value: %+v''
                                 [ArgInt (ssParam ss), ArgScalar (ssValue ss)]) mc1)
                else
                  finish (ArgFmt ''% x'' [ArgBytes (fPayload f)])
                    (debugMsg ''WARNING: Unable to handle Notice type: %d, ignoring''
                       [ArgInt (int (fType f))] mc1))))"


section \<open>Capability negotiator\<close>

text \<open>
  Modelled from the spec: the capability table and its methods \<^verbatim>\<open>AddScalarString\<close>,
  \<^verbatim>\<open>AddScalarBool\<close> and \<^verbatim>\<open>AddArrayString\<close> (their file is not among the sources):
  a mapping from capability name to decoded value.
\<close>

definition AddScalarString :: "string \<Rightarrow> string \<Rightarrow> mysqlXConn \<Rightarrow> mysqlXConn" where
  "AddScalarString name v mc = mc\<lparr>capabilities := (capabilities mc)(name \<mapsto> CapScalarString v)\<rparr>"

definition AddScalarBool :: "string \<Rightarrow> bool \<Rightarrow> mysqlXConn \<Rightarrow> mysqlXConn" where
  "AddScalarBool name v mc = mc\<lparr>capabilities := (capabilities mc)(name \<mapsto> CapScalarBool v)\<rparr>"

definition AddArrayString :: "string \<Rightarrow> string list \<Rightarrow> mysqlXConn \<Rightarrow> mysqlXConn" where
  "AddArrayString name vs mc = mc\<lparr>capabilities := (capabilities mc)(name \<mapsto> CapArrayString vs)\<rparr>"

definition writeConnCapabilitiesGet :: "mysqlXConn \<Rightarrow> unit outcome \<times> mysqlXConn" where
  "writeConnCapabilitiesGet mc =
     writeProtobufPacket
       (Some \<lparr>msgType = ClientMessages_CON_CAPABILITIES_GET, payload = None\<rparr>) mc"

text \<open>
  The body of the \<^verbatim>\<open>for\<close> over the decoded capabilities. In the last branch
  \<^verbatim>\<open>value.Scalar.Type.String()\<close> selects through \<^verbatim>\<open>value\<close>, \<^verbatim>\<open>value.Scalar\<close> and the
  type pointer, and panics when one of them is nil.
\<close>

definition addCapability :: "Capability \<Rightarrow> mysqlXConn \<Rightarrow> unit outcome \<times> mysqlXConn" where
  "addCapability c mc =
     (let name = capName c; value = capValue c in
      obind (isScalar value) mc (\<lambda>sc.
        if sc then
          obind (isScalarString value) mc (\<lambda>isStr.
            if isStr then
              obind (scalarString value) mc (\<lambda>scalar.
                (Ok (), AddScalarString name scalar
                          (debugMsg ''- scalar string: name: %q, value: %q''
                             [ArgStr name, ArgStr scalar] mc)))
            else
              obind (isScalarBool value) mc (\<lambda>isB.
                if isB then
                  obind (scalarBool value) mc (\<lambda>scalar.
                    (Ok (), AddScalarBool name scalar
                              (debugMsg ''- scalar bool: name: %q, value: %v''
                                 [ArgStr name, ArgBool scalar] mc)))
                else
                  (Ok (), debugMsg
                     ''Found scalar: name: %q, value: %+v (type %s) which I can not handle yet''
                     [ArgStr name, ArgAny value, ArgStr (Scalar_Type_String (Scalar_GetType
                        (case value of None \<Rightarrow> None | Some v \<Rightarrow> aScalar v)))] mc)))
        else if isArrayString value then
          obind (arrayString value) mc (\<lambda>values.
            (Ok (), AddArrayString name (case values of None \<Rightarrow> [] | Some vs \<Rightarrow> vs)
                      (debugMsg ''- array of strings: name: %q, values: %+v''
                         [ArgStr name, ArgStrs (case values of None \<Rightarrow> [] | Some vs \<Rightarrow> vs)] mc)))
        else
          obind (isScalar value) mc (\<lambda>sc2.
            (case value of
               None \<Rightarrow> (Panic, mc)
             | Some v \<Rightarrow>
                 (case aScalar v of
                    None \<Rightarrow> (Panic, mc)
                  | Some s \<Rightarrow>
                      (case sType s of
                         None \<Rightarrow> (Panic, mc)
                       | Some t \<Rightarrow>
                           (Ok (), debugMsg
                              ''getCapabilities: capability %q is of a %s type (%s) I can not handle yet (so ignoring)''
                              [ArgStr name, ArgStr (if sc2 then ''scalar'' else ''non-scalar''),
                               ArgStr (Scalar_Type_String t)]
                              mc)))))))"

fun addCapabilities :: "Capability list \<Rightarrow> mysqlXConn \<Rightarrow> unit outcome \<times> mysqlXConn" where
  "addCapabilities [] mc = (Ok (), mc)"
| "addCapabilities (c # cs) mc =
     (case addCapability c mc of
        (Ok u, mc1) \<Rightarrow> addCapabilities cs mc1
      | (Err e, mc1) \<Rightarrow> (Err e, mc1)
      | (Fatal m args, mc1) \<Rightarrow> (Fatal m args, mc1)
      | (Panic, mc1) \<Rightarrow> (Panic, mc1))"

text \<open>
  The wait loop of \<^verbatim>\<open>getCapabilities\<close>: it returns the frame that set \<^verbatim>\<open>done\<close>, or
  stops with what one of its \<^verbatim>\<open>return\<close> statements gives. The arguments of
  \<^verbatim>\<open>debug.Msg\<close> are evaluated before the call, so \<^verbatim>\<open>errorMsg\<close> runs twice in the
  \<^verbatim>\<open>ERROR\<close> case. The result of \<^verbatim>\<open>processNotice\<close> is not looked at.
\<close>

function getCapabilities_loop :: "env \<Rightarrow> mysqlXConn \<Rightarrow> netProtobuf outcome \<times> mysqlXConn" where
  "getCapabilities_loop E mc =
     (case readMsg mc of
        (Err e, mc1) \<Rightarrow> (Err e, mc1)
      | (Fatal m args, mc1) \<Rightarrow> (Fatal m args, mc1)
      | (Panic, mc1) \<Rightarrow> (Panic, mc1)
      | (Ok p, mc1) \<Rightarrow>
          if msgType p = ServerMessages_ERROR then
            obind (errorMsg E (bytes_of (payload p))) mc1 (\<lambda>e1.
              let mc2 = debugMsg ''getCapabilities() got back ERROR msg'' [ArgErr e1] mc1 in
              obind (errorMsg E (bytes_of (payload p))) mc2 (\<lambda>e2.
                (Err (Errorf ''getCapabilities returned: %+v'' [ArgErr e2]), mc2)))
          else if msgType p = ServerMessages_CONN_CAPABILITIES then (Ok p, mc1)
          else if msgType p = ServerMessages_NOTICE then
            (case processNotice E ''getCapabilities''
                    ((debugMsg ''got unexpected NOTICE (see below), ignoring'' [] mc1)
                       \<lparr>pb := Some p\<rparr>) of
               (Ok u, mc2) \<Rightarrow> getCapabilities_loop E mc2
             | (Err e, mc2) \<Rightarrow> getCapabilities_loop E mc2
             | (Fatal m args, mc2) \<Rightarrow> (Fatal m args, mc2)
             | (Panic, mc2) \<Rightarrow> (Panic, mc2))
          else
            getCapabilities_loop E
              (debugMsg ''got unexpected message type (show the type here), ignoring'' [] mc1))"
  by pat_completeness auto

termination getCapabilities_loop
proof -
  have rd: "length (inbytes mc1) < length (inbytes mc)"
    if "(x, mc1) = readMsg mc" "x = Ok p" for mc p mc1 x
    using that
    by (auto simp: readMsg_def readNext_def Let_def debugMsg_def minPacketSize_def
             split: if_splits list.splits prod.splits sum.splits)
  have pn: "inbytes m' = inbytes m" if "(r, m') = processNotice E w m" for E w m r m'
    using that
    by (auto simp: processNotice_def Let_def debugMsg_def
             split: option.splits sum.splits if_splits)
  show ?thesis
    apply (relation "measure (\<lambda>(E, mc). length (inbytes mc))")
       apply simp
      apply (frule (1) rd, frule pn, simp add: debugMsg_def)
     apply (frule (1) rd, frule pn, simp add: debugMsg_def)
    apply (frule (1) rd, simp add: debugMsg_def)
    done
qed

declare getCapabilities_loop.simps [simp del]

text \<open>
  \<^verbatim>\<open>getCapabilities\<close>. After the loop \<^verbatim>\<open>pb\<close> is the frame that ended it, so the test
  \<^verbatim>\<open>pb == nil\<close> has no branch here; \<^verbatim>\<open>pb.payload == nil\<close> has.
\<close>

definition getCapabilities :: "env \<Rightarrow> mysqlXConn \<Rightarrow> unit outcome \<times> mysqlXConn" where
  "getCapabilities E mc =
     (case writeConnCapabilitiesGet mc of
        (Err err, mc1) \<Rightarrow> (Err (Errorf ''getCapabilities: %v'' [ArgErr err]), mc1)
      | (Fatal m args, mc1) \<Rightarrow> (Fatal m args, mc1)
      | (Panic, mc1) \<Rightarrow> (Panic, mc1)
      | (Ok u, mc1) \<Rightarrow>
          (case getCapabilities_loop E mc1 of
             (Err e, mc2) \<Rightarrow> (Err e, mc2)
           | (Fatal m args, mc2) \<Rightarrow> (Fatal m args, mc2)
           | (Panic, mc2) \<Rightarrow> (Panic, mc2)
           | (Ok p, mc2) \<Rightarrow>
               (case payload p of
                  None \<Rightarrow> (Err (Errorf ''BUG: Empty pb.payload'' []), mc2)
                | Some data \<Rightarrow>
                    (case unmarshal_Capabilities E data of
                       Inl err \<Rightarrow>
                         (Err (Errorf ''unmarshaling error with capabilities: %v'' [ArgErr err]),
                          mc2)
                     | Inr caps \<Rightarrow>
                         addCapabilities caps
                           (debugMsg ''found %d capabilities'' [ArgInt (int (length caps))]
                              mc2)))))"

text \<open>
  The wait loop of \<^verbatim>\<open>setScalarBoolCapability\<close>. Its \<^verbatim>\<open>pb\<close> is a local variable; the
  \<^verbatim>\<open>ERROR\<close> case calls \<^verbatim>\<open>mc.processErrorMsg\<close>, which reads \<^verbatim>\<open>mc.pb\<close>. The loop never
  sets \<^verbatim>\<open>done\<close>, so nothing after it is reached.
\<close>

function setScalarBoolCapability_loop ::
  "env \<Rightarrow> mysqlXConn \<Rightarrow> unit outcome \<times> mysqlXConn" where
  "setScalarBoolCapability_loop E mc =
     (case readMsg
             (debugMsg
                ''setScalarBoolCapability() read response from capabilitiesSet message...'' []
                mc) of
        (Err e, mc1) \<Rightarrow> (Err e, mc1)
      | (Fatal m args, mc1) \<Rightarrow> (Fatal m args, mc1)
      | (Panic, mc1) \<Rightarrow> (Panic, mc1)
      | (Ok p, mc1) \<Rightarrow>
          if msgType p = ServerMessages_OK
          then (Ok (), debugMsg ''setScalarBoolCapability() OK msg'' [] mc1)
          else if msgType p = ServerMessages_ERROR then
            obind (netProtobuf_errorMsg E (Some p)) mc1 (\<lambda>e1.
              (case processErrorMsg E (debugMsg ''setScalarBoolCapability() %s'' [ArgErr e1] mc1) of
                 (Ok u, mc2) \<Rightarrow>
                   (Err (Errorf ''setScalarBoolCapability failed: %v'' [ArgNil]), mc2)
               | (Err e, mc2) \<Rightarrow>
                   (Err (Errorf ''setScalarBoolCapability failed: %v'' [ArgErr e]), mc2)
               | (Fatal m args, mc2) \<Rightarrow> (Fatal m args, mc2)
               | (Panic, mc2) \<Rightarrow> (Panic, mc2)))
          else if msgType p = ServerMessages_NOTICE then
            (case processNotice E ''setScalarBoolCapability''
                    ((debugMsg ''got unexpected NOTICE (below), ignoring'' [] mc1)
                       \<lparr>pb := Some p\<rparr>) of
               (Ok u, mc2) \<Rightarrow> setScalarBoolCapability_loop E mc2
             | (Err e, mc2) \<Rightarrow> setScalarBoolCapability_loop E mc2
             | (Fatal m args, mc2) \<Rightarrow> (Fatal m args, mc2)
             | (Panic, mc2) \<Rightarrow> (Panic, mc2))
          else
            setScalarBoolCapability_loop E
              (debugMsg ''got unexpected message type %d, ignoring'' [ArgInt (msgType p)] mc1))"
  by pat_completeness auto
termination setScalarBoolCapability_loop
proof -
  have rd: "length (inbytes mc1) < length (inbytes mc)"
    if "(x, mc1) = readMsg mc" "x = Ok p" for mc p mc1 x
    using that
    by (auto simp: readMsg_def readNext_def Let_def debugMsg_def minPacketSize_def
             split: if_splits list.splits prod.splits sum.splits)
  have pn: "inbytes m' = inbytes m" if "(r, m') = processNotice E w m" for E w m r m'
    using that
    by (auto simp: processNotice_def Let_def debugMsg_def
             split: option.splits sum.splits if_splits)
  show ?thesis
    apply (relation "measure (\<lambda>(E, mc). length (inbytes mc))")
       apply simp
      apply (frule (1) rd, frule pn, simp add: debugMsg_def)
     apply (frule (1) rd, frule pn, simp add: debugMsg_def)
    apply (frule (1) rd, simp add: debugMsg_def)
    done
qed

declare setScalarBoolCapability_loop.simps [simp del]

definition setScalarBoolCapability ::
  "env \<Rightarrow> string \<Rightarrow> bool \<Rightarrow> mysqlXConn \<Rightarrow> unit outcome \<times> mysqlXConn" where
  "setScalarBoolCapability E name value mc =
     (let mc0 = debugMsg ''setScalarBoolCapability(%q,%v)'' [ArgStr name, ArgBool value] mc;
          capabilitiesArray =
            [\<lparr>capName = name,
              capValue = Some (newAnyScalar Any_SCALAR (newBoolScalar value))\<rparr>];
          mc1 = debugMsg ''CapabilitiesSet msg: <%+v>'' [ArgCaps capabilitiesArray] mc0 in
      case marshal_CapabilitiesSet E capabilitiesArray of
        Inl err \<Rightarrow>
          (Err (Errorf
                  ''SetScalarBoolCapability(%q,%v) failed to create marshalled message: %v''
                  [ArgErr err]), mc1)
      | Inr data \<Rightarrow>
          (case writeProtobufPacket
                  (Some \<lparr>msgType = ClientMessages_CON_CAPABILITIES_SET, payload = Some data\<rparr>)
                  (debugMsg ''CapabilitySet message: %s'' [ArgCaps capabilitiesArray] mc1) of
             (Err err, mc2) \<Rightarrow>
               (Err (Errorf ''SetScalarBoolCapability(%q,%v) failed: %v''
                       [ArgStr name, ArgBool value, ArgErr err]), mc2)
           | (Fatal m args, mc2) \<Rightarrow> (Fatal m args, mc2)
           | (Panic, mc2) \<Rightarrow> (Panic, mc2)
           | (Ok u, mc2) \<Rightarrow> setScalarBoolCapability_loop E mc2))"


section \<open>Authentication handshake\<close>

definition writeSessAuthenticateStart ::
  "env \<Rightarrow> string \<Rightarrow> byte list \<Rightarrow> mysqlXConn \<Rightarrow> unit outcome \<times> mysqlXConn" where
  "writeSessAuthenticateStart E mechName authData mc =
     (let mc0 = debugMsg ''writeSessAuthenticateStart: %+v'' [ArgStr mechName, ArgBytes authData]
                  mc in
      case marshal_AuthenticateStart E mechName authData of
        Inl err \<Rightarrow>
          (Err (Errorf ''Failed to marshall SesstionAuthenticateStart: %v'' [ArgErr err]), mc0)
      | Inr data \<Rightarrow>
          writeProtobufPacket
            (Some \<lparr>msgType = ClientMessages_SESS_AUTHENTICATE_START, payload = Some data\<rparr>) mc0)"

definition writeSessAuthenticateContinue ::
  "env \<Rightarrow> byte list \<Rightarrow> mysqlXConn \<Rightarrow> unit outcome \<times> mysqlXConn" where
  "writeSessAuthenticateContinue E authData mc =
     (let mc0 = debugMsg ''writeSessAuthenticateContinue: %+v'' [ArgBytes authData] mc in
      case marshal_AuthenticateContinue E authData of
        Inl err \<Rightarrow>
          (Err (Errorf ''Failed to marshall SessAuthenticateContinue: %v'' [ArgErr err]), mc0)
      | Inr data \<Rightarrow>
          writeProtobufPacket
            (Some \<lparr>msgType = ClientMessages_SESS_AUTHENTICATE_CONTINUE, payload = Some data\<rparr>)
            mc0)"

text \<open>\<^verbatim>\<open>readSessAuthenticateContinue\<close> returns the decoded message, here its auth data
  (\<^verbatim>\<open>GetAuthData()\<close>), the one field that is read.\<close>

definition readSessAuthenticateContinue ::
  "env \<Rightarrow> netProtobuf \<Rightarrow> mysqlXConn \<Rightarrow> byte list outcome \<times> mysqlXConn" where
  "readSessAuthenticateContinue E p mc =
     (case unmarshal_AuthenticateContinue E (bytes_of (payload p)) of
        Inl err \<Rightarrow> (Fatal ''unmarshaling error with authenticateContinue: '' [ArgErr err], mc)
      | Inr authData \<Rightarrow>
          (Ok authData, debugMsg ''readSessAuthenticateContinue: %+v'' [ArgBytes authData] mc))"

text \<open>
  The loop of \<^verbatim>\<open>waitingForAuthenticateOk\<close>. Each turn stores what \<^verbatim>\<open>readMsg\<close> returns
  in \<^verbatim>\<open>mc.pb\<close>, nil when the read failed. \<^verbatim>\<open>printableMsgTypeIn\<close> is kept as the code
  it prints.
\<close>

function waitingForAuthenticateOk_loop ::
  "env \<Rightarrow> mysqlXConn \<Rightarrow> unit outcome \<times> mysqlXConn" where
  "waitingForAuthenticateOk_loop E mc =
     (case readMsg (debugMsg ''WaitingForAuthenticateOk: wait for message...'' [] mc) of
        (Err e, mc1) \<Rightarrow>
          (Err (Errorf
                  ''Failed to read message response from our SESS_AUTHENTICATE_CONTINUE: %v''
                  [ArgErr e]), mc1\<lparr>pb := None\<rparr>)
      | (Fatal m args, mc1) \<Rightarrow> (Fatal m args, mc1)
      | (Panic, mc1) \<Rightarrow> (Panic, mc1)
      | (Ok p, mc1) \<Rightarrow>
          if msgType p = ServerMessages_SESS_AUTHENTICATE_OK then
            (Ok (),
             debugMsg ''WaitingForAuthenticateOk: out of loop, return no error'' []
               (debugMsg ''WaitingForAuthenticateOk: found expected SESS_AUTHENTICATE_OK'' []
                  (debugMsg ''WaitingForAuthenticateOk: msg read from server'' []
                     (mc1\<lparr>pb := Some p\<rparr>))))
          else if msgType p = ServerMessages_ERROR then
            (case errorMsg E (bytes_of (payload p)) of
               Ok e \<Rightarrow>
                 (Err e,
                  debugMsg ''WaitingForAuthenticateOk: found ERROR, returning to caller'' []
                    (debugMsg ''WaitingForAuthenticateOk: msg read from server'' []
                       (mc1\<lparr>pb := Some p\<rparr>)))
             | Err e \<Rightarrow>
                 (Err e,
                  debugMsg ''WaitingForAuthenticateOk: found ERROR, returning to caller'' []
                    (debugMsg ''WaitingForAuthenticateOk: msg read from server'' []
                       (mc1\<lparr>pb := Some p\<rparr>)))
             | Fatal m args \<Rightarrow>
                 (Fatal m args,
                  debugMsg ''WaitingForAuthenticateOk: found ERROR, returning to caller'' []
                    (debugMsg ''WaitingForAuthenticateOk: msg read from server'' []
                       (mc1\<lparr>pb := Some p\<rparr>)))
             | Panic \<Rightarrow>
                 (Panic,
                  debugMsg ''WaitingForAuthenticateOk: found ERROR, returning to caller'' []
                    (debugMsg ''WaitingForAuthenticateOk: msg read from server'' []
                       (mc1\<lparr>pb := Some p\<rparr>))))
          else if msgType p = ServerMessages_NOTICE then
            (case processNotice E ''waitingForAuthenticateOk''
                    ((debugMsg ''WaitingForAuthenticateOk: msg read from server'' [] mc1)
                       \<lparr>pb := Some p\<rparr>) of
               (Ok u, mc2) \<Rightarrow> waitingForAuthenticateOk_loop E mc2
             | (Err e, mc2) \<Rightarrow>
                 waitingForAuthenticateOk_loop E
                   (debugMsg ''waitingForAuthenticateOk: processNotice() failed: %v'' [ArgErr e]
                      mc2)
             | (Fatal m args, mc2) \<Rightarrow> (Fatal m args, mc2)
             | (Panic, mc2) \<Rightarrow> (Panic, mc2))
          else
            (Fatal
               ''mysqlXConn.waitingfor_SESS_AUTHENTICATE_OK: Received unexpected message type: %s, expecting: %s''
               [ArgInt (msgType p), ArgInt ServerMessages_OK],
             debugMsg ''Expected message type: %s'' [ArgInt ServerMessages_OK]
               (debugMsg ''Received unexpected message type: %s'' [ArgInt (msgType p)]
                  (debugMsg ''WaitingForAuthenticateOk: msg read from server'' []
                     (mc1\<lparr>pb := Some p\<rparr>)))))"
  by pat_completeness auto
termination waitingForAuthenticateOk_loop
proof -
  have rd: "length (inbytes mc1) < length (inbytes mc)"
    if "(x, mc1) = readMsg mc" "x = Ok p" for mc p mc1 x
    using that
    by (auto simp: readMsg_def readNext_def Let_def debugMsg_def minPacketSize_def
             split: if_splits list.splits prod.splits sum.splits)
  have pn: "inbytes m' = inbytes m" if "(r, m') = processNotice E w m" for E w m r m'
    using that
    by (auto simp: processNotice_def Let_def debugMsg_def
             split: option.splits sum.splits if_splits)
  show ?thesis
    apply (relation "measure (\<lambda>(E, mc). length (inbytes mc))")
      apply simp
     apply (frule (1) rd, frule pn, simp add: debugMsg_def)
    apply (frule (1) rd, frule pn, simp add: debugMsg_def)
    done
qed

declare waitingForAuthenticateOk_loop.simps [simp del]

definition waitingForAuthenticateOk :: "env \<Rightarrow> mysqlXConn \<Rightarrow> unit outcome \<times> mysqlXConn" where
  "waitingForAuthenticateOk E mc =
     waitingForAuthenticateOk_loop E (debugMsg ''WaitingForAuthenticateOk: starting'' [] mc)"

text \<open>
  \<^verbatim>\<open>AuthenticateMySQL41\<close>. The result of \<^verbatim>\<open>mc.writeSessAuthenticateStart(msg)\<close> is
  dropped: the test that follows reads the function's own \<^verbatim>\<open>err\<close>, which is still nil.
  \<^verbatim>\<open>mc.pb.payload\<close> after the wait dereferences \<^verbatim>\<open>mc.pb\<close>.
\<close>

definition AuthenticateMySQL41 :: "env \<Rightarrow> mysqlXConn \<Rightarrow> unit outcome \<times> mysqlXConn" where
  "AuthenticateMySQL41 E mc =
     (let mc0 = debugMsg ''AuthenticateMySQL41(db: %q, user: %q, passwd: <not shown>)''
                  [ArgStr (cfg_dbname mc), ArgStr (cfg_user mc)] mc;
          authInfo = NewMySQL41 E (cfg_dbname mc0) (cfg_user mc0) (cfg_passwd mc0);
          mc1 = snd (writeSessAuthenticateStart E ''MYSQL41'' (GetInitialAuthData authInfo) mc0)
      in
      case readMsg mc1 of
        (Err e, mc2) \<Rightarrow> (Err e, mc2)
      | (Fatal m args, mc2) \<Rightarrow> (Fatal m args, mc2)
      | (Panic, mc2) \<Rightarrow> (Panic, mc2)
      | (Ok p, mc2) \<Rightarrow>
          if msgType p \<noteq> ServerMessages_SESS_AUTHENTICATE_CONTINUE
          then (Err (Errorf ''Got unexpected message type back: %s, expecting: %s''
                       [ArgInt (msgType p), ArgInt ServerMessages_SESS_AUTHENTICATE_CONTINUE]),
                mc2)
          else
            (case readSessAuthenticateContinue E p mc2 of
               (Err e, mc3) \<Rightarrow> (Err e, mc3)
             | (Fatal m args, mc3) \<Rightarrow> (Fatal m args, mc3)
             | (Panic, mc3) \<Rightarrow> (Panic, mc3)
             | (Ok authData, mc3) \<Rightarrow>
                 if length authData \<noteq> 20
                 then (Err (Errorf ''Received %d bytes from server, expecting: 20''
                              [ArgInt (int (length authData))]), mc3)
                 else
                   (case GetNextAuthData authInfo authData of
                      Inl err \<Rightarrow>
                        (Err (Errorf ''authInfo.GetNextAuthData() gave an error: %v''
                                [ArgErr err]), mc3)
                    | Inr response \<Rightarrow>
                        (case writeSessAuthenticateContinue E response mc3 of
                           (Err err, mc4) \<Rightarrow>
                             (Err (Errorf
                                     ''AuthenticateMySQL41: failed writing AuthenticateContinue: %v''
                                     [ArgErr err]), mc4)
                         | (Fatal m args, mc4) \<Rightarrow> (Fatal m args, mc4)
                         | (Panic, mc4) \<Rightarrow> (Panic, mc4)
                         | (Ok u, mc4) \<Rightarrow>
                             (case waitingForAuthenticateOk E mc4 of
                                (Err err, mc5) \<Rightarrow>
                                  (Err (Errorf
                                          ''Failed to read message response from our SESS_AUTHENTICATE_CONTINUE: %v''
                                          [ArgErr err]), mc5)
                              | (Fatal m args, mc5) \<Rightarrow> (Fatal m args, mc5)
                              | (Panic, mc5) \<Rightarrow> (Panic, mc5)
                              | (Ok u2, mc5) \<Rightarrow>
                                  (case pb mc5 of
                                     None \<Rightarrow> (Panic, mc5)
                                   | Some q \<Rightarrow>
                                       (case printAuthenticateOk E (bytes_of (payload q)) mc5 of
                                          (Ok u3, mc6) \<Rightarrow> (Ok (), mc6\<lparr>pb := None\<rparr>)
                                        | (Err e, mc6) \<Rightarrow> (Err e, mc6)
                                        | (Fatal m args, mc6) \<Rightarrow> (Fatal m args, mc6)
                                        | (Panic, mc6) \<Rightarrow> (Panic, mc6))))))))"

section \<open>Fixtures for the examples\<close>

text \<open>The bytes of one frame on the wire, in the layout \<^verbatim>\<open>writeProtobufPacket\<close> writes:
  the length of type byte and payload in four bytes, low byte first, the type byte, the
  payload.\<close>

definition frameBytes :: "int \<Rightarrow> byte list \<Rightarrow> byte list" where
  "frameBytes t body =
     (let pktLen = int (length body) + 1 in
      [word_of_int pktLen, word_of_int (drop_bit 8 pktLen), word_of_int (drop_bit 16 pktLen),
       word_of_int (drop_bit 24 pktLen), word_of_int t] @ body)"

text \<open>The message that carries a capability value when the peer follows the schema;
  for a boolean it is what \<^verbatim>\<open>setScalarBoolCapability\<close> builds.\<close>

definition stringScalar :: "string \<Rightarrow> Any" where
  "stringScalar str =
     newAnyScalar Any_SCALAR \<lparr>sType = Some V_STRING, VString = Some str, VBool = None\<rparr>"

definition anyOf :: "CapabilityValue \<Rightarrow> Any" where
  "anyOf v =
     (case v of
        CapScalarString str \<Rightarrow> stringScalar str
      | CapScalarBool b \<Rightarrow> newAnyScalar Any_SCALAR (newBoolScalar b)
      | CapArrayString strs \<Rightarrow> Any (Some Any_ARRAY) None (map stringScalar strs))"

definition capabilityOf :: "string \<times> CapabilityValue \<Rightarrow> Capability" where
  "capabilityOf kv = \<lparr>capName = fst kv, capValue = Some (anyOf (snd kv))\<rparr>"

text \<open>A connection that has just been opened, with the usual 16 MiB frame limit, and a
  codec that rejects every payload.\<close>

definition conn0 :: mysqlXConn where
  "conn0 = \<lparr>inbytes = [], written = [], wlimit = None, closed = False,
             maxPacketAllowed = 16777215, pb = None, capabilities = Map.empty,
             cfg_dbname = ''db'', cfg_user = ''user'', cfg_passwd = ''secret'',
             errlog = [], dbg = []\<rparr>"

definition env0 :: env where
  "env0 = \<lparr>unmarshal_Error = (\<lambda>b. Inl (ErrCodec ''proto: bad wire data'')),
            unmarshal_Frame = (\<lambda>b. Inl (ErrCodec ''proto: bad wire data'')),
            unmarshal_Warning = (\<lambda>b. Inl (ErrCodec ''proto: bad wire data'')),
            unmarshal_SessionVariableChanged = (\<lambda>b. Inl (ErrCodec ''proto: bad wire data'')),
            unmarshal_SessionStateChanged = (\<lambda>b. Inl (ErrCodec ''proto: bad wire data'')),
            unmarshal_Capabilities = (\<lambda>b. Inl (ErrCodec ''proto: bad wire data'')),
            unmarshal_AuthenticateContinue = (\<lambda>b. Inl (ErrCodec ''proto: bad wire data'')),
            unmarshal_AuthenticateOk = (\<lambda>b. Inl (ErrCodec ''proto: bad wire data'')),
            marshal_CapabilitiesSet = (\<lambda>c. Inr []),
            marshal_AuthenticateStart = (\<lambda>m a. Inr a),
            marshal_AuthenticateContinue = (\<lambda>a. Inr a),
            NewMySQL41 = (\<lambda>d u p. \<lparr>GetInitialAuthData = [], GetNextAuthData = (\<lambda>n. Inr n)\<rparr>)\<rparr>"


text \<open>A codec that decodes a few fixed payloads, and a connection on which the peer has
  sent a warning notice, a session-variable notice and a capability list.\<close>

definition env1 :: env where
  "env1 = env0\<lparr>
     unmarshal_Error := (\<lambda>b. Inr \<lparr>eSeverity = Some Severity_ERROR, eCode = Some 1045,
                                   eSqlState = Some ''HY000'',
                                   eMsg = Some ''Invalid user or password''\<rparr>),
     unmarshal_Frame := (\<lambda>b. if b = [1] then Inr \<lparr>fType = 1, fScope = 1, fPayload = [10]\<rparr>
                              else if b = [2] then Inr \<lparr>fType = 2, fScope = 2, fPayload = [20]\<rparr>
                              else if b = [3] then Inr \<lparr>fType = 3, fScope = 2, fPayload = [30]\<rparr>
                              else Inl (ErrCodec ''proto: bad wire data'')),
     unmarshal_Warning := (\<lambda>b. if b = [10]
                                then Inr \<lparr>wLevel = Level_WARNING, wCode = 1265,
                                          wMsg = ''Data truncated''\<rparr>
                                else Inl (ErrCodec ''proto: bad wire data'')),
     unmarshal_SessionVariableChanged :=
       (\<lambda>b. if b = [20] then Inr \<lparr>svParam = ''autocommit'', svValue = None\<rparr>
             else Inl (ErrCodec ''proto: bad wire data'')),
     unmarshal_Capabilities :=
       (\<lambda>b. Inr (map capabilityOf [(''doc.formats'', CapScalarString ''JSON''),
                                     (''tls'', CapScalarBool True)])),
     unmarshal_AuthenticateContinue := (\<lambda>b. Inr b)\<rparr>"

definition conn1 :: mysqlXConn where
  "conn1 = conn0\<lparr>inbytes := frameBytes ServerMessages_NOTICE [1] @
                           frameBytes ServerMessages_NOTICE [2] @
                           frameBytes ServerMessages_CONN_CAPABILITIES [3]\<rparr>"

text \<open>A connection on which the peer answers the handshake with a 20-byte nonce and then
  with a structured error.\<close>

definition conn2 :: mysqlXConn where
  "conn2 = conn0\<lparr>inbytes := frameBytes ServerMessages_SESS_AUTHENTICATE_CONTINUE (replicate 20 7) @
                           frameBytes ServerMessages_ERROR [9]\<rparr>"

section \<open>Frame codec: facts\<close>

lemma debugMsg_fields [simp]:
  "inbytes (debugMsg f a mc) = inbytes mc"
  "written (debugMsg f a mc) = written mc"
  "wlimit (debugMsg f a mc) = wlimit mc"
  "closed (debugMsg f a mc) = closed mc"
  "maxPacketAllowed (debugMsg f a mc) = maxPacketAllowed mc"
  "pb (debugMsg f a mc) = pb mc"
  "capabilities (debugMsg f a mc) = capabilities mc"
  "errlog (debugMsg f a mc) = errlog mc"
  "dbg (debugMsg f a mc) = dbg mc @ [(f, a)]"
  by (simp_all add: debugMsg_def)

lemma bytes_of_payload [simp]: "bytes_of (if b = [] then None else Some b) = b"
  by (simp add: bytes_of_def)

lemmas ServerMessages_defs =
  ServerMessages_OK_def ServerMessages_ERROR_def ServerMessages_CONN_CAPABILITIES_def
  ServerMessages_SESS_AUTHENTICATE_CONTINUE_def ServerMessages_SESS_AUTHENTICATE_OK_def
  ServerMessages_NOTICE_def

lemma hdr_word:
  "((ucast (word_of_int n :: byte) :: 32 word)
      OR push_bit 8 (ucast (word_of_int (drop_bit 8 n) :: byte))
      OR push_bit 16 (ucast (word_of_int (drop_bit 16 n) :: byte))
      OR push_bit 24 (ucast (word_of_int (drop_bit 24 n) :: byte))) = word_of_int n"
proof (rule bit_word_eqI)
  fix k :: nat
  assume "k < LENGTH(32)"
  then have k: "k < 32" by simp
  consider "k < 8" | "8 \<le> k" "k < 16" | "16 \<le> k" "k < 24" | "24 \<le> k"
    by linarith
  then show "bit ((ucast (word_of_int n :: byte) :: 32 word)
      OR push_bit 8 (ucast (word_of_int (drop_bit 8 n) :: byte))
      OR push_bit 16 (ucast (word_of_int (drop_bit 16 n) :: byte))
      OR push_bit 24 (ucast (word_of_int (drop_bit 24 n) :: byte))) k
    = bit (word_of_int n :: 32 word) k"
    using k by cases (auto simp add: bit_simps)
qed

lemma pktLen_of_header:
  assumes "0 \<le> n" "n < 2 ^ 32"
  shows "pktLen_of (word_of_int n) (word_of_int (drop_bit 8 n)) (word_of_int (drop_bit 16 n))
           (word_of_int (drop_bit 24 n)) = n"
  using assms unfolding pktLen_of_def hdr_word
  by (simp add: uint_word_of_int take_bit_int_eq_self)

lemma uint_byte_of_int: "0 \<le> t \<Longrightarrow> t \<le> 255 \<Longrightarrow> uint (word_of_int t :: byte) = t"
  by (simp add: uint_word_of_int take_bit_int_eq_self)

text \<open>A stream that starts with a whole frame: \<^verbatim>\<open>readMsg\<close> returns the frame and leaves
  what follows it.\<close>

lemma readMsg_frame:
  assumes len: "pktLen_of d0 d1 d2 d3 = int (length body) + 1"
    and inb: "inbytes mc = [d0, d1, d2, d3] @ (t # body) @ rest"
  shows "readMsg mc =
     (Ok \<lparr>msgType = uint t, payload = (if body = [] then None else Some body)\<rparr>,
      debugMsg ''S -> C: len: %d, type: %d [%s], payload: %+v''
        [ArgInt (5 + int (length body)), ArgInt (uint t), ArgInt (uint t), ArgBytes body]
        (mc\<lparr>inbytes := rest\<rparr>))"
proof -
  have natn: "nat (int (length body) + 1) = Suc (length body)" by simp
  have rd1: "readNext 4 mc = (Inr [d0, d1, d2, d3], mc\<lparr>inbytes := (t # body) @ rest\<rparr>)"
    by (simp add: readNext_def inb)
  have rd2: "readNext (int (length body) + 1) (mc\<lparr>inbytes := (t # body) @ rest\<rparr>) =
               (Inr (t # body), mc\<lparr>inbytes := rest\<rparr>)"
    unfolding readNext_def natn by simp
  have p: "(if 1 < length (t # body) then Some body else None) =
           (if body = [] then None else Some body)"
    by (cases body) simp_all
  show ?thesis
    unfolding readMsg_def rd1
    by (simp add: len minPacketSize_def rd2 p del: append.simps) (simp add: bytes_of_def)
qed

lemma readMsg_frameBytes:
  assumes "0 \<le> t" "t \<le> 255" "int (length body) + 1 < 2 ^ 32"
    and "inbytes mc = frameBytes t body @ rest"
  shows "readMsg mc =
     (Ok \<lparr>msgType = t, payload = (if body = [] then None else Some body)\<rparr>,
      debugMsg ''S -> C: len: %d, type: %d [%s], payload: %+v''
        [ArgInt (5 + int (length body)), ArgInt t, ArgInt t, ArgBytes body]
        (mc\<lparr>inbytes := rest\<rparr>))"
proof -
  have n: "0 \<le> int (length body) + 1" by simp
  have inb: "inbytes mc =
      [word_of_int (int (length body) + 1), word_of_int (drop_bit 8 (int (length body) + 1)),
       word_of_int (drop_bit 16 (int (length body) + 1)),
       word_of_int (drop_bit 24 (int (length body) + 1))] @ (word_of_int t # body) @ rest"
    using assms(4) by (simp add: frameBytes_def Let_def)
  show ?thesis
    using readMsg_frame [OF pktLen_of_header [OF n assms(3)] inb]
    by (simp add: uint_byte_of_int assms(1,2))
qed

lemma writeProtobufPacket_ok:
  assumes "msgType p \<le> 255"
    and "int (length (bytes_of (payload p))) + 1 \<le> maxPacketAllowed mc"
    and "\<not> closed mc" "wlimit mc = None"
  shows "writeProtobufPacket (Some p) mc =
     (Ok (), debugMsg ''C -> S: len: %d, type: %d [%s], payload: %+v''
               [ArgInt (5 + int (length (bytes_of (payload p)))), ArgInt (msgType p),
                ArgInt (msgType p), ArgBytes (bytes_of (payload p))]
               (mc\<lparr>written := written mc @ frameBytes (msgType p) (bytes_of (payload p))\<rparr>))"
  using assms
  by (simp add: writeProtobufPacket_def netWrite_def debugMsg_def Let_def frameBytes_def)

lemma writeProtobufPacket_msgType_too_big:
  "255 < msgType p \<Longrightarrow>
   writeProtobufPacket (Some p) mc = (Err ErrMalformPkt, mc\<lparr>closed := True\<rparr>)"
  by (simp add: writeProtobufPacket_def Close_def)

lemma writeProtobufPacket_too_large:
  "msgType p \<le> 255 \<Longrightarrow> maxPacketAllowed mc < int (length (bytes_of (payload p))) + 1 \<Longrightarrow>
   fst (writeProtobufPacket (Some p) mc) = Err ErrPktTooLarge \<and>
   written (snd (writeProtobufPacket (Some p) mc)) = written mc \<and>
   closed (snd (writeProtobufPacket (Some p) mc)) = closed mc \<and>
   inbytes (snd (writeProtobufPacket (Some p) mc)) = inbytes mc"
  by (simp add: writeProtobufPacket_def debugMsg_def Let_def)

text \<open>
  C1. A frame whose type is in 0..255 and whose length (type byte and payload) is within
  the configured maximum, the maximum fitting the 32-bit length field, is written by
  \<^verbatim>\<open>writeProtobufPacket\<close> without error, and \<^verbatim>\<open>readMsg\<close> on the bytes written returns
  the same type and the same payload bytes and leaves nothing unread. This holds for every
  payload length up to the maximum minus one, so for the lengths 0, 1 and the maximum minus
  one. A payload of length 0 comes back as the nil slice.
\<close>

theorem frame_roundtrip:
  assumes t: "0 \<le> msgType p" "msgType p \<le> 255"
    and len: "int (length (bytes_of (payload p))) + 1 \<le> maxPacketAllowed mc"
    and u32: "maxPacketAllowed mc < 2 ^ 32"
    and tr: "\<not> closed mc" "wlimit mc = None"
  shows "\<exists>mc1 q mc2.
           writeProtobufPacket (Some p) mc = (Ok (), mc1) \<and>
           readMsg (mc1\<lparr>inbytes := drop (length (written mc)) (written mc1)\<rparr>) = (Ok q, mc2) \<and>
           msgType q = msgType p \<and> bytes_of (payload q) = bytes_of (payload p) \<and>
           payload q = (if bytes_of (payload p) = [] then None else Some (bytes_of (payload p))) \<and>
           inbytes mc2 = []"
proof -
  have n: "int (length (bytes_of (payload p))) + 1 < 2 ^ 32" using len u32 by simp
  note w = writeProtobufPacket_ok [OF t(2) len tr]
  let ?mc1 = "snd (writeProtobufPacket (Some p) mc)"
  let ?mc1' = "?mc1\<lparr>inbytes := drop (length (written mc)) (written ?mc1)\<rparr>"
  have inb: "inbytes ?mc1' = frameBytes (msgType p) (bytes_of (payload p)) @ []"
    by (simp add: w debugMsg_def)
  note r = readMsg_frameBytes [OF t n inb]
  show ?thesis
    apply (rule exI [of _ ?mc1])
    apply (intro exI conjI)
         apply (simp add: w)
        apply (rule r)
       apply simp
      apply (simp add: bytes_of_def)
     apply simp
    apply (simp add: debugMsg_def)
    done
qed

theorem frame_roundtrip_witness:
  "\<exists>mc1 q mc2.
     writeProtobufPacket (Some \<lparr>msgType = 12, payload = Some [7]\<rparr>) conn0 = (Ok (), mc1) \<and>
     readMsg (mc1\<lparr>inbytes := drop (length (written conn0)) (written mc1)\<rparr>) = (Ok q, mc2) \<and>
     msgType q = 12 \<and> bytes_of (payload q) = [7] \<and> payload q = Some [7] \<and>
     inbytes mc2 = []"
  using frame_roundtrip [of "\<lparr>msgType = 12, payload = Some [7]\<rparr>" conn0]
  by (simp add: conn0_def bytes_of_def)

text \<open>
  C3, as the code has it. When the four header bytes give a length below 1,
  \<^verbatim>\<open>readMsg\<close> prints \<^verbatim>\<open>ErrMalformPkt\<close> on the error log, closes the connection and
  returns \<^verbatim>\<open>driver.ErrBadConn\<close>, the value it also returns for a failed read; it has
  taken the four header bytes from the stream and nothing else.
\<close>

theorem readMsg_malformed:
  assumes "inbytes mc = [d0, d1, d2, d3] @ rest" and "pktLen_of d0 d1 d2 d3 < 1"
  shows "readMsg mc =
           (Err ErrBadConn,
            mc\<lparr>inbytes := rest, closed := True, errlog := errlog mc @ [ErrMalformPkt]\<rparr>)"
  using assms
  by (simp add: readMsg_def readNext_def minPacketSize_def Close_def errLogPrint_def)

theorem readMsg_malformed_witness:
  "readMsg (conn0\<lparr>inbytes := [0, 0, 0, 0, 9]\<rparr>) =
     (Err ErrBadConn,
      conn0\<lparr>inbytes := [9], closed := True, errlog := [ErrMalformPkt]\<rparr>)"
  using readMsg_malformed [of "conn0\<lparr>inbytes := [0, 0, 0, 0, 9]\<rparr>" 0 0 0 0 "[9]"]
  by (simp add: pktLen_of_def conn0_def)

text \<open>C3 as stated fails: on the header 0 0 0 0 the value returned is not the
  malformed-packet error.\<close>

theorem readMsg_malformed_counterexample:
  "fst (readMsg (conn0\<lparr>inbytes := [0, 0, 0, 0, 9]\<rparr>)) \<noteq> Err ErrMalformPkt"
  by (simp add: readMsg_def readNext_def minPacketSize_def pktLen_of_def)

text \<open>
  C4 at the message type -1, which lies outside 0..255: \<^verbatim>\<open>writeProtobufPacket\<close> tests
  only \<^verbatim>\<open>pb.msgType > 255\<close>, so it writes a whole frame whose type byte is 255 and
  returns no error.
\<close>

theorem writeProtobufPacket_negative_msgType:
  "fst (writeProtobufPacket (Some \<lparr>msgType = - 1, payload = None\<rparr>) conn0) = Ok () \<and>
   written (snd (writeProtobufPacket (Some \<lparr>msgType = - 1, payload = None\<rparr>) conn0))
     = [1, 0, 0, 0, 255]"
  by (simp add: writeProtobufPacket_def netWrite_def debugMsg_def bytes_of_def conn0_def)


section \<open>Wait loops: one turn\<close>

lemma writeConnCapabilitiesGet_ok:
  assumes "\<not> closed mc" "wlimit mc = None" "1 \<le> maxPacketAllowed mc"
  shows "writeConnCapabilitiesGet mc =
     (Ok (), debugMsg ''C -> S: len: %d, type: %d [%s], payload: %+v''
               [ArgInt 5, ArgInt 1, ArgInt 1, ArgBytes []]
               (mc\<lparr>written := written mc @ [1, 0, 0, 0, 1]\<rparr>))"
  unfolding writeConnCapabilitiesGet_def
  using writeProtobufPacket_ok [of "\<lparr>msgType = ClientMessages_CON_CAPABILITIES_GET, payload = None\<rparr>" mc] assms
  by (simp add: bytes_of_def ClientMessages_CON_CAPABILITIES_GET_def frameBytes_def)

lemma getCapabilities_loop_caps:
  assumes "readMsg mc = (Ok p, mc1)" "msgType p = ServerMessages_CONN_CAPABILITIES"
  shows "getCapabilities_loop E mc = (Ok p, mc1)"
  by (subst getCapabilities_loop.simps) (simp add: assms ServerMessages_defs)

lemma getCapabilities_loop_other:
  assumes "readMsg mc = (Ok p, mc1)"
    and "msgType p \<noteq> ServerMessages_ERROR" "msgType p \<noteq> ServerMessages_CONN_CAPABILITIES"
        "msgType p \<noteq> ServerMessages_NOTICE"
  shows "getCapabilities_loop E mc =
     getCapabilities_loop E
       (debugMsg ''got unexpected message type (show the type here), ignoring'' [] mc1)"
  by (subst getCapabilities_loop.simps) (simp add: assms)

lemma getCapabilities_loop_notice:
  assumes "readMsg mc = (Ok p, mc1)" "msgType p = ServerMessages_NOTICE"
    and "processNotice E ''getCapabilities''
           ((debugMsg ''got unexpected NOTICE (see below), ignoring'' [] mc1)\<lparr>pb := Some p\<rparr>)
          = (Ok (), mc2)"
  shows "getCapabilities_loop E mc = getCapabilities_loop E mc2"
  by (subst getCapabilities_loop.simps) (simp add: assms ServerMessages_defs)

lemma writeProtobufPacket_inbytes [simp]:
  "inbytes (snd (writeProtobufPacket po mc)) = inbytes mc"
  by (simp add: writeProtobufPacket_def netWrite_def Close_def Let_def
           split: option.splits prod.splits)

lemma writeSessAuthenticateStart_inbytes [simp]:
  "inbytes (snd (writeSessAuthenticateStart E m a mc)) = inbytes mc"
  by (simp add: writeSessAuthenticateStart_def Let_def split: sum.splits)

lemma setScalarBoolCapability_loop_other:
  assumes "readMsg (debugMsg
                ''setScalarBoolCapability() read response from capabilitiesSet message...'' []
                mc) = (Ok p, mc1)"
    and "msgType p \<noteq> ServerMessages_OK" "msgType p \<noteq> ServerMessages_ERROR"
        "msgType p \<noteq> ServerMessages_NOTICE"
  shows "setScalarBoolCapability_loop E mc =
     setScalarBoolCapability_loop E
       (debugMsg ''got unexpected message type %d, ignoring'' [ArgInt (msgType p)] mc1)"
  by (subst setScalarBoolCapability_loop.simps) (simp add: assms)

lemma waitingForAuthenticateOk_loop_other:
  assumes "readMsg (debugMsg ''WaitingForAuthenticateOk: wait for message...'' [] mc)
             = (Ok p, mc1)"
    and "msgType p \<noteq> ServerMessages_SESS_AUTHENTICATE_OK" "msgType p \<noteq> ServerMessages_ERROR"
        "msgType p \<noteq> ServerMessages_NOTICE"
  shows "waitingForAuthenticateOk_loop E mc =
     (Fatal
        ''mysqlXConn.waitingfor_SESS_AUTHENTICATE_OK: Received unexpected message type: %s, expecting: %s''
        [ArgInt (msgType p), ArgInt ServerMessages_OK],
      debugMsg ''Expected message type: %s'' [ArgInt ServerMessages_OK]
        (debugMsg ''Received unexpected message type: %s'' [ArgInt (msgType p)]
           (debugMsg ''WaitingForAuthenticateOk: msg read from server'' []
              (mc1\<lparr>pb := Some p\<rparr>))))"
  by (subst waitingForAuthenticateOk_loop.simps) (simp add: assms)

lemma waitingForAuthenticateOk_loop_error:
  assumes "readMsg (debugMsg ''WaitingForAuthenticateOk: wait for message...'' [] mc)
             = (Ok p, mc1)"
    and "msgType p = ServerMessages_ERROR" "errorMsg E (bytes_of (payload p)) = Ok e"
  shows "waitingForAuthenticateOk_loop E mc =
     (Err e,
      debugMsg ''WaitingForAuthenticateOk: found ERROR, returning to caller'' []
        (debugMsg ''WaitingForAuthenticateOk: msg read from server'' []
           (mc1\<lparr>pb := Some p\<rparr>)))"
  by (subst waitingForAuthenticateOk_loop.simps) (simp add: assms ServerMessages_defs)


section \<open>Notices and the capability table: facts\<close>

lemma processNotice_Warning:
  assumes "pb mc = Some p" "unmarshal_Frame E (bytes_of (payload p)) = Inr f" "fType f = 1"
    and "unmarshal_Warning E (fPayload f) = Inr w"
  shows "processNotice E whr mc =
    (Ok (), (debugMsg ''Received NOTICE: Type: %+v [%s], Scope: %d [%s], %s''
               [ArgInt 1, ArgStr ''Warning'', ArgInt (fScope f), ArgInt (fScope f),
                ArgFmt ''Level: %+v, code: %d, msg: %s''
                  [ArgStr (Level_String (wLevel w)), ArgInt (int (wCode w)), ArgStr (wMsg w)]]
               (debugMsg ''mysqlXConn.processNotice(%q)'' [ArgStr whr] mc))\<lparr>pb := None\<rparr>)"
  using assms
  by (simp add: processNotice_def Let_def noticeTypeToName_def mysqlxNoticeTypeName_def)

lemma processNotice_SessionVariableChanged:
  assumes "pb mc = Some p" "unmarshal_Frame E (bytes_of (payload p)) = Inr f" "fType f = 2"
    and "unmarshal_SessionVariableChanged E (fPayload f) = Inr sv"
  shows "processNotice E whr mc =
    (Ok (), (debugMsg ''Received NOTICE: Type: %+v [%s], Scope: %d [%s], %s''
               [ArgInt 2, ArgStr ''SessionVariableChanged'', ArgInt (fScope f), ArgInt (fScope f),
                ArgFmt ''SessionVariableChanged: Param: %s, Value: %+v''
                  [ArgStr (svParam sv), ArgScalar (svValue sv)]]
               (debugMsg ''mysqlXConn.processNotice(%q)'' [ArgStr whr] mc))\<lparr>pb := None\<rparr>)"
  using assms
  by (simp add: processNotice_def Let_def noticeTypeToName_def mysqlxNoticeTypeName_def)

lemma scalarString_stringScalar [simp]: "scalarString (Some (stringScalar str)) = Ok str"
  by (simp add: scalarString_def isScalarString_def isScalarOfType_def stringScalar_def
        newAnyScalar_def)

lemma scalarStrings_stringScalar:
  "scalarStrings (map stringScalar strs) acc = Ok (acc @ strs)"
  by (induction strs arbitrary: acc) simp_all

lemma isArrayString_array:
  "isArrayString (Some (Any (Some Any_ARRAY) None (map stringScalar strs)))"
  by (simp add: isArrayString_def Any_GetType_def Scalar_GetType_def list_all_iff
        stringScalar_def newAnyScalar_def)

lemma addCapability_anyOf:
  "\<exists>mc'. addCapability (capabilityOf (n, v)) mc = (Ok (), mc') \<and>
         capabilities mc' = (capabilities mc)(n \<mapsto> v) \<and>
         inbytes mc' = inbytes mc \<and> set (dbg mc) \<subseteq> set (dbg mc')"
proof (cases v)
  case (CapScalarString str)
  then show ?thesis
    by (simp add: addCapability_def capabilityOf_def anyOf_def isScalar_def isScalarString_def
          isScalarOfType_def stringScalar_def newAnyScalar_def scalarString_def
          AddScalarString_def subset_insertI)
next
  case (CapScalarBool b)
  then show ?thesis
    by (simp add: addCapability_def capabilityOf_def anyOf_def isScalar_def isScalarString_def
          isScalarBool_def isScalarOfType_def newBoolScalar_def newAnyScalar_def scalarBool_def
          AddScalarBool_def subset_insertI)
next
  case (CapArrayString strs)
  then show ?thesis
    by (simp add: addCapability_def capabilityOf_def anyOf_def isScalar_def
          isArrayString_array arrayString_def scalarStrings_stringScalar AddArrayString_def
          subset_insertI)
qed

lemma addCapabilities_anyOf:
  "\<exists>mc'. addCapabilities (map capabilityOf kvs) mc = (Ok (), mc') \<and>
         capabilities mc' = capabilities mc ++ map_of (rev kvs) \<and>
         inbytes mc' = inbytes mc \<and> set (dbg mc) \<subseteq> set (dbg mc')"
proof (induction kvs arbitrary: mc)
  case Nil
  then show ?case by simp
next
  case (Cons kv kvs)
  obtain n v where kv: "kv = (n, v)" by (cases kv)
  from addCapability_anyOf [of n v mc] obtain mc1 where
    1: "addCapability (capabilityOf (n, v)) mc = (Ok (), mc1)"
       "capabilities mc1 = (capabilities mc)(n \<mapsto> v)"
       "inbytes mc1 = inbytes mc" "set (dbg mc) \<subseteq> set (dbg mc1)"
    by blast
  from Cons.IH [of mc1] obtain mc2 where
    2: "addCapabilities (map capabilityOf kvs) mc1 = (Ok (), mc2)"
       "capabilities mc2 = capabilities mc1 ++ map_of (rev kvs)"
       "inbytes mc2 = inbytes mc1" "set (dbg mc1) \<subseteq> set (dbg mc2)"
    by blast
  have "capabilities mc ++ map_of (rev (kv # kvs)) = (capabilities mc)(n \<mapsto> v) ++ map_of (rev kvs)"
    by (simp add: kv map_add_def fun_eq_iff split: option.splits)
  with 1 2 show ?case
    by (auto simp: kv)
qed

section \<open>Capability negotiation\<close>

text \<open>
  C10. When the reply to the capability request is a capability-list frame of length 1
  (the type byte alone), \<^verbatim>\<open>readMsg\<close> returns it with a nil payload, and
  \<^verbatim>\<open>getCapabilities\<close> returns the error \<^verbatim>\<open>BUG: Empty pb.payload\<close>: it does not succeed,
  and the capability table is as it was.
\<close>

theorem getCapabilities_empty_payload:
  assumes "\<not> closed mc" "wlimit mc = None" "1 \<le> maxPacketAllowed mc"
    and "inbytes mc = [d0, d1, d2, d3, t] @ rest" "pktLen_of d0 d1 d2 d3 = 1"
    and "uint t = ServerMessages_CONN_CAPABILITIES"
  shows "fst (readMsg mc) = Ok \<lparr>msgType = ServerMessages_CONN_CAPABILITIES, payload = None\<rparr> \<and>
         fst (getCapabilities E mc) = Err (Errorf ''BUG: Empty pb.payload'' []) \<and>
         capabilities (snd (getCapabilities E mc)) = capabilities mc \<and>
         inbytes (snd (getCapabilities E mc)) = rest"
proof -
  have len: "pktLen_of d0 d1 d2 d3 = int (length ([] :: byte list)) + 1" using assms(5) by simp
  have inb: "inbytes mc = [d0, d1, d2, d3] @ (t # []) @ rest" using assms(4) by simp
  let ?mc1 = "debugMsg ''C -> S: len: %d, type: %d [%s], payload: %+v''
               [ArgInt 5, ArgInt 1, ArgInt 1, ArgBytes []]
               (mc\<lparr>written := written mc @ [1, 0, 0, 0, 1]\<rparr>)"
  have inb1: "inbytes ?mc1 = [d0, d1, d2, d3] @ (t # []) @ rest" using assms(4) by simp
  note r1 = readMsg_frame [OF len inb1, simplified]
  have l: "getCapabilities_loop E ?mc1 = (Ok \<lparr>msgType = uint t, payload = None\<rparr>,
      debugMsg ''S -> C: len: %d, type: %d [%s], payload: %+v''
        [ArgInt 5, ArgInt (uint t), ArgInt (uint t), ArgBytes []] (?mc1\<lparr>inbytes := rest\<rparr>))"
    by (rule getCapabilities_loop_caps [OF r1]) (simp add: assms(6))
  have g: "getCapabilities E mc = (Err (Errorf ''BUG: Empty pb.payload'' []),
      debugMsg ''S -> C: len: %d, type: %d [%s], payload: %+v''
        [ArgInt 5, ArgInt (uint t), ArgInt (uint t), ArgBytes []] (?mc1\<lparr>inbytes := rest\<rparr>))"
    by (simp add: getCapabilities_def writeConnCapabilitiesGet_ok [OF assms(1-3)] l)
  show ?thesis
    unfolding g using readMsg_frame [OF len inb] by (simp add: assms(6))
qed


theorem getCapabilities_empty_payload_witness:
  "fst (readMsg (conn0\<lparr>inbytes := [1, 0, 0, 0, 2, 99]\<rparr>))
     = Ok \<lparr>msgType = ServerMessages_CONN_CAPABILITIES, payload = None\<rparr> \<and>
   fst (getCapabilities env0 (conn0\<lparr>inbytes := [1, 0, 0, 0, 2, 99]\<rparr>))
     = Err (Errorf ''BUG: Empty pb.payload'' []) \<and>
   capabilities (snd (getCapabilities env0 (conn0\<lparr>inbytes := [1, 0, 0, 0, 2, 99]\<rparr>)))
     = Map.empty \<and>
   inbytes (snd (getCapabilities env0 (conn0\<lparr>inbytes := [1, 0, 0, 0, 2, 99]\<rparr>))) = [99]"
  using getCapabilities_empty_payload
          [of "conn0\<lparr>inbytes := [1, 0, 0, 0, 2, 99]\<rparr>" 1 0 0 0 2 "[99]" env0]
  by (simp add: conn0_def pktLen_of_def ServerMessages_defs)

text \<open>
  C6. The peer answers the capability request with a warning notice, a session-variable
  notice and a capability list. \<^verbatim>\<open>getCapabilities\<close> gives each notice to
  \<^verbatim>\<open>processNotice\<close>, which reports it on the debug sink, goes on reading after each of
  them, and returns without error after the third frame, having read the three frames and
  nothing more; the capabilities the third frame carries are then in the table.
\<close>

theorem getCapabilities_notices_then_capabilities:
  assumes tr: "\<not> closed mc" "wlimit mc = None" "1 \<le> maxPacketAllowed mc"
    and stream: "inbytes mc =
           frameBytes ServerMessages_NOTICE n1 @ frameBytes ServerMessages_NOTICE n2 @
           frameBytes ServerMessages_CONN_CAPABILITIES cp @ rest"
    and sizes: "int (length n1) + 1 < 2 ^ 32" "int (length n2) + 1 < 2 ^ 32"
               "int (length cp) + 1 < 2 ^ 32" "cp \<noteq> []"
    and d1: "unmarshal_Frame E n1 = Inr f1" "fType f1 = 1"
            "unmarshal_Warning E (fPayload f1) = Inr w"
    and d2: "unmarshal_Frame E n2 = Inr f2" "fType f2 = 2"
            "unmarshal_SessionVariableChanged E (fPayload f2) = Inr sv"
    and d3: "unmarshal_Capabilities E cp = Inr (map capabilityOf kvs)"
  shows "fst (getCapabilities E mc) = Ok () \<and>
         capabilities (snd (getCapabilities E mc)) = capabilities mc ++ map_of (rev kvs) \<and>
         inbytes (snd (getCapabilities E mc)) = rest \<and>
         (''Received NOTICE: Type: %+v [%s], Scope: %d [%s], %s'',
          [ArgInt 1, ArgStr ''Warning'', ArgInt (fScope f1), ArgInt (fScope f1),
           ArgFmt ''Level: %+v, code: %d, msg: %s''
             [ArgStr (Level_String (wLevel w)), ArgInt (int (wCode w)), ArgStr (wMsg w)]])
           \<in> set (dbg (snd (getCapabilities E mc))) \<and>
         (''Received NOTICE: Type: %+v [%s], Scope: %d [%s], %s'',
          [ArgInt 2, ArgStr ''SessionVariableChanged'', ArgInt (fScope f2), ArgInt (fScope f2),
           ArgFmt ''SessionVariableChanged: Param: %s, Value: %+v''
             [ArgStr (svParam sv), ArgScalar (svValue sv)]])
           \<in> set (dbg (snd (getCapabilities E mc)))"
proof -
  have t: "0 \<le> ServerMessages_NOTICE" "ServerMessages_NOTICE \<le> 255"
    "0 \<le> ServerMessages_CONN_CAPABILITIES" "ServerMessages_CONN_CAPABILITIES \<le> 255"
    by (simp_all add: ServerMessages_defs)
  \<comment> \<open>the request is written\<close>
  define mc1 where "mc1 = debugMsg ''C -> S: len: %d, type: %d [%s], payload: %+v''
               [ArgInt 5, ArgInt 1, ArgInt 1, ArgBytes []]
               (mc\<lparr>written := written mc @ [1, 0, 0, 0, 1]\<rparr>)"
  have w: "writeConnCapabilitiesGet mc = (Ok (), mc1)"
    unfolding mc1_def by (rule writeConnCapabilitiesGet_ok [OF tr])
  have in1: "inbytes mc1 = frameBytes ServerMessages_NOTICE n1 @
      (frameBytes ServerMessages_NOTICE n2 @ frameBytes ServerMessages_CONN_CAPABILITIES cp @ rest)"
    unfolding mc1_def using stream by simp
  \<comment> \<open>first notice\<close>
  define p1 where "p1 = \<lparr>msgType = ServerMessages_NOTICE,
                          payload = (if n1 = [] then None else Some n1)\<rparr>"
  define r1 where "r1 = debugMsg ''S -> C: len: %d, type: %d [%s], payload: %+v''
        [ArgInt (5 + int (length n1)), ArgInt ServerMessages_NOTICE,
         ArgInt ServerMessages_NOTICE, ArgBytes n1]
        (mc1\<lparr>inbytes := frameBytes ServerMessages_NOTICE n2 @
                 frameBytes ServerMessages_CONN_CAPABILITIES cp @ rest\<rparr>)"
  have rd1: "readMsg mc1 = (Ok p1, r1)"
    unfolding p1_def r1_def by (rule readMsg_frameBytes [OF t(1,2) sizes(1) in1])
  define a1 where
    "a1 = (debugMsg ''got unexpected NOTICE (see below), ignoring'' [] r1)\<lparr>pb := Some p1\<rparr>"
  define line1 where "line1 = (''Received NOTICE: Type: %+v [%s], Scope: %d [%s], %s'',
          [ArgInt 1, ArgStr ''Warning'', ArgInt (fScope f1), ArgInt (fScope f1),
           ArgFmt ''Level: %+v, code: %d, msg: %s''
             [ArgStr (Level_String (wLevel w)), ArgInt (int (wCode w)), ArgStr (wMsg w)]])"
  define mc2 where "mc2 = (debugMsg (fst line1) (snd line1)
      (debugMsg ''mysqlXConn.processNotice(%q)'' [ArgStr ''getCapabilities''] a1))\<lparr>pb := None\<rparr>"
  have pn1: "processNotice E ''getCapabilities'' a1 = (Ok (), mc2)"
    unfolding mc2_def line1_def fst_conv snd_conv
    by (rule processNotice_Warning [where p = p1]) (simp_all add: a1_def p1_def d1)
  have s1: "getCapabilities_loop E mc1 = getCapabilities_loop E mc2"
    by (rule getCapabilities_loop_notice [OF rd1 _ pn1 [unfolded a1_def]]) (simp add: p1_def)
  have in2: "inbytes mc2 = frameBytes ServerMessages_NOTICE n2 @
      (frameBytes ServerMessages_CONN_CAPABILITIES cp @ rest)"
    by (simp add: mc2_def a1_def r1_def)
  have dbg2: "line1 \<in> set (dbg mc2)" by (simp add: mc2_def)
  \<comment> \<open>second notice\<close>
  define p2 where "p2 = \<lparr>msgType = ServerMessages_NOTICE,
                          payload = (if n2 = [] then None else Some n2)\<rparr>"
  define r2 where "r2 = debugMsg ''S -> C: len: %d, type: %d [%s], payload: %+v''
        [ArgInt (5 + int (length n2)), ArgInt ServerMessages_NOTICE,
         ArgInt ServerMessages_NOTICE, ArgBytes n2]
        (mc2\<lparr>inbytes := frameBytes ServerMessages_CONN_CAPABILITIES cp @ rest\<rparr>)"
  have rd2: "readMsg mc2 = (Ok p2, r2)"
    unfolding p2_def r2_def by (rule readMsg_frameBytes [OF t(1,2) sizes(2) in2])
  define a2 where
    "a2 = (debugMsg ''got unexpected NOTICE (see below), ignoring'' [] r2)\<lparr>pb := Some p2\<rparr>"
  define line2 where "line2 = (''Received NOTICE: Type: %+v [%s], Scope: %d [%s], %s'',
          [ArgInt 2, ArgStr ''SessionVariableChanged'', ArgInt (fScope f2), ArgInt (fScope f2),
           ArgFmt ''SessionVariableChanged: Param: %s, Value: %+v''
             [ArgStr (svParam sv), ArgScalar (svValue sv)]])"
  define mc3 where "mc3 = (debugMsg (fst line2) (snd line2)
      (debugMsg ''mysqlXConn.processNotice(%q)'' [ArgStr ''getCapabilities''] a2))\<lparr>pb := None\<rparr>"
  have pn2: "processNotice E ''getCapabilities'' a2 = (Ok (), mc3)"
    unfolding mc3_def line2_def fst_conv snd_conv
    by (rule processNotice_SessionVariableChanged [where p = p2])
       (simp_all add: a2_def p2_def d2)
  have s2: "getCapabilities_loop E mc2 = getCapabilities_loop E mc3"
    by (rule getCapabilities_loop_notice [OF rd2 _ pn2 [unfolded a2_def]]) (simp add: p2_def)
  have in3: "inbytes mc3 = frameBytes ServerMessages_CONN_CAPABILITIES cp @ rest"
    by (simp add: mc3_def a2_def r2_def)
  have dbg3: "line1 \<in> set (dbg mc3)" "line2 \<in> set (dbg mc3)"
    using dbg2 by (simp_all add: mc3_def a2_def r2_def)
  \<comment> \<open>the capability list\<close>
  define mc4 where "mc4 = debugMsg ''S -> C: len: %d, type: %d [%s], payload: %+v''
        [ArgInt (5 + int (length cp)), ArgInt ServerMessages_CONN_CAPABILITIES,
         ArgInt ServerMessages_CONN_CAPABILITIES, ArgBytes cp]
        (mc3\<lparr>inbytes := rest\<rparr>)"
  have rd3: "readMsg mc3 =
      (Ok \<lparr>msgType = ServerMessages_CONN_CAPABILITIES, payload = Some cp\<rparr>, mc4)"
    using readMsg_frameBytes [OF t(3,4) sizes(3) in3] sizes(4) by (simp add: mc4_def)
  have s3: "getCapabilities_loop E mc3 =
      (Ok \<lparr>msgType = ServerMessages_CONN_CAPABILITIES, payload = Some cp\<rparr>, mc4)"
    by (rule getCapabilities_loop_caps [OF rd3]) simp
  define mc5 where
    "mc5 = debugMsg ''found %d capabilities'' [ArgInt (int (length kvs))] mc4"
  from addCapabilities_anyOf [of kvs mc5] obtain mc6 where
    6: "addCapabilities (map capabilityOf kvs) mc5 = (Ok (), mc6)"
       "capabilities mc6 = capabilities mc5 ++ map_of (rev kvs)"
       "inbytes mc6 = inbytes mc5" "set (dbg mc5) \<subseteq> set (dbg mc6)"
    by blast
  have g: "getCapabilities E mc = (Ok (), mc6)"
    unfolding getCapabilities_def w
    by (simp add: s1 s2 s3 d3 6(1) [unfolded mc5_def])
  have c5: "capabilities mc5 = capabilities mc"
    by (simp add: mc5_def mc4_def mc3_def a2_def r2_def mc2_def a1_def r1_def mc1_def)
  have i5: "inbytes mc5 = rest" by (simp add: mc5_def mc4_def)
  have d5: "line1 \<in> set (dbg mc5)" "line2 \<in> set (dbg mc5)"
    using dbg3 by (simp_all add: mc5_def mc4_def)
  show ?thesis
    using 6 c5 i5 d5 unfolding g line1_def line2_def by auto
qed


theorem getCapabilities_notices_then_capabilities_witness:
  "fst (getCapabilities env1 conn1) = Ok () \<and>
   capabilities (snd (getCapabilities env1 conn1)) =
     Map.empty ++ map_of (rev [(''doc.formats'', CapScalarString ''JSON''),
                               (''tls'', CapScalarBool True)]) \<and>
   inbytes (snd (getCapabilities env1 conn1)) = [] \<and>
   (''Received NOTICE: Type: %+v [%s], Scope: %d [%s], %s'',
    [ArgInt 1, ArgStr ''Warning'', ArgInt 1, ArgInt 1,
     ArgFmt ''Level: %+v, code: %d, msg: %s''
       [ArgStr ''WARNING'', ArgInt 1265, ArgStr ''Data truncated'']])
     \<in> set (dbg (snd (getCapabilities env1 conn1))) \<and>
   (''Received NOTICE: Type: %+v [%s], Scope: %d [%s], %s'',
    [ArgInt 2, ArgStr ''SessionVariableChanged'', ArgInt 2, ArgInt 2,
     ArgFmt ''SessionVariableChanged: Param: %s, Value: %+v''
       [ArgStr ''autocommit'', ArgScalar None]])
     \<in> set (dbg (snd (getCapabilities env1 conn1)))"
proof -
  have c: "\<not> closed conn1" "wlimit conn1 = None" "1 \<le> maxPacketAllowed conn1"
    "capabilities conn1 = Map.empty"
    "inbytes conn1 = frameBytes ServerMessages_NOTICE [1] @ frameBytes ServerMessages_NOTICE [2] @
                     frameBytes ServerMessages_CONN_CAPABILITIES [3] @ []"
    by (simp_all add: conn1_def conn0_def)
  show ?thesis
    using getCapabilities_notices_then_capabilities
            [OF c(1,2,3,5), of env1 "\<lparr>fType = 1, fScope = 1, fPayload = [10]\<rparr>"
               "\<lparr>wLevel = Level_WARNING, wCode = 1265, wMsg = ''Data truncated''\<rparr>"
               "\<lparr>fType = 2, fScope = 2, fPayload = [20]\<rparr>"
               "\<lparr>svParam = ''autocommit'', svValue = None\<rparr>"
               "[(''doc.formats'', CapScalarString ''JSON''), (''tls'', CapScalarBool True)]"]
    by (simp add: env1_def env0_def c(4) Level_String_def)
qed

section \<open>Unexpected message types\<close>

text \<open>
  C8, as the code has it. A frame whose type the step does not name is logged and
  skipped by the wait loops of \<^verbatim>\<open>getCapabilities\<close> and \<^verbatim>\<open>setScalarBoolCapability\<close>,
  which go on reading after it. In \<^verbatim>\<open>waitingForAuthenticateOk\<close> such a frame ends the
  process through \<^verbatim>\<open>log.Fatalf\<close>, once the frame has been read.
\<close>

theorem unexpected_message_at_wait_loops:
  assumes t: "0 \<le> t" "t \<le> 255" and len: "int (length body) + 1 < 2 ^ 32"
    and inb: "inbytes mc = frameBytes t body @ rest"
  shows "(t \<notin> {ServerMessages_ERROR, ServerMessages_CONN_CAPABILITIES, ServerMessages_NOTICE} \<longrightarrow>
            getCapabilities_loop E mc =
            getCapabilities_loop E
              (debugMsg ''got unexpected message type (show the type here), ignoring'' []
                 (debugMsg ''S -> C: len: %d, type: %d [%s], payload: %+v''
                    [ArgInt (5 + int (length body)), ArgInt t, ArgInt t, ArgBytes body]
                    (mc\<lparr>inbytes := rest\<rparr>)))) \<and>
         (t \<notin> {ServerMessages_OK, ServerMessages_ERROR, ServerMessages_NOTICE} \<longrightarrow>
            setScalarBoolCapability_loop E mc =
            setScalarBoolCapability_loop E
              (debugMsg ''got unexpected message type %d, ignoring'' [ArgInt t]
                 (debugMsg ''S -> C: len: %d, type: %d [%s], payload: %+v''
                    [ArgInt (5 + int (length body)), ArgInt t, ArgInt t, ArgBytes body]
                    ((debugMsg
                        ''setScalarBoolCapability() read response from capabilitiesSet message...''
                        [] mc)\<lparr>inbytes := rest\<rparr>)))) \<and>
         (t \<notin> {ServerMessages_SESS_AUTHENTICATE_OK, ServerMessages_ERROR, ServerMessages_NOTICE} \<longrightarrow>
            fst (waitingForAuthenticateOk_loop E mc) =
              Fatal
                ''mysqlXConn.waitingfor_SESS_AUTHENTICATE_OK: Received unexpected message type: %s, expecting: %s''
                [ArgInt t, ArgInt ServerMessages_OK] \<and>
            inbytes (snd (waitingForAuthenticateOk_loop E mc)) = rest)"
proof (intro conjI impI)
  assume a: "t \<notin> {ServerMessages_ERROR, ServerMessages_CONN_CAPABILITIES, ServerMessages_NOTICE}"
  show "getCapabilities_loop E mc =
            getCapabilities_loop E
              (debugMsg ''got unexpected message type (show the type here), ignoring'' []
                 (debugMsg ''S -> C: len: %d, type: %d [%s], payload: %+v''
                    [ArgInt (5 + int (length body)), ArgInt t, ArgInt t, ArgBytes body]
                    (mc\<lparr>inbytes := rest\<rparr>)))"
    by (rule getCapabilities_loop_other [OF readMsg_frameBytes [OF t len inb]]) (use a in simp_all)
next
  assume a: "t \<notin> {ServerMessages_OK, ServerMessages_ERROR, ServerMessages_NOTICE}"
  have inb': "inbytes (debugMsg
                ''setScalarBoolCapability() read response from capabilitiesSet message...'' []
                mc) = frameBytes t body @ rest"
    using inb by simp
  show "setScalarBoolCapability_loop E mc =
            setScalarBoolCapability_loop E
              (debugMsg ''got unexpected message type %d, ignoring'' [ArgInt t]
                 (debugMsg ''S -> C: len: %d, type: %d [%s], payload: %+v''
                    [ArgInt (5 + int (length body)), ArgInt t, ArgInt t, ArgBytes body]
                    ((debugMsg
                        ''setScalarBoolCapability() read response from capabilitiesSet message...''
                        [] mc)\<lparr>inbytes := rest\<rparr>)))"
    using setScalarBoolCapability_loop_other [OF readMsg_frameBytes [OF t len inb'], of E] a
    by simp
next
  assume a: "t \<notin> {ServerMessages_SESS_AUTHENTICATE_OK, ServerMessages_ERROR, ServerMessages_NOTICE}"
  have inb': "inbytes (debugMsg ''WaitingForAuthenticateOk: wait for message...'' [] mc)
                = frameBytes t body @ rest"
    using inb by simp
  note w = waitingForAuthenticateOk_loop_other [OF readMsg_frameBytes [OF t len inb'], of E]
  show "fst (waitingForAuthenticateOk_loop E mc) =
              Fatal
                ''mysqlXConn.waitingfor_SESS_AUTHENTICATE_OK: Received unexpected message type: %s, expecting: %s''
                [ArgInt t, ArgInt ServerMessages_OK]"
    using w a by simp
  show "inbytes (snd (waitingForAuthenticateOk_loop E mc)) = rest"
    using w a by simp
qed


theorem unexpected_message_at_wait_loops_witness:
  "getCapabilities_loop env0 (conn0\<lparr>inbytes := frameBytes 7 [] @ []\<rparr>) =
     getCapabilities_loop env0
       (debugMsg ''got unexpected message type (show the type here), ignoring'' []
          (debugMsg ''S -> C: len: %d, type: %d [%s], payload: %+v''
             [ArgInt 5, ArgInt 7, ArgInt 7, ArgBytes []] (conn0\<lparr>inbytes := []\<rparr>))) \<and>
   setScalarBoolCapability_loop env0 (conn0\<lparr>inbytes := frameBytes 7 [] @ []\<rparr>) =
     setScalarBoolCapability_loop env0
       (debugMsg ''got unexpected message type %d, ignoring'' [ArgInt 7]
          (debugMsg ''S -> C: len: %d, type: %d [%s], payload: %+v''
             [ArgInt 5, ArgInt 7, ArgInt 7, ArgBytes []]
             ((debugMsg
                 ''setScalarBoolCapability() read response from capabilitiesSet message...''
                 [] (conn0\<lparr>inbytes := frameBytes 7 [] @ []\<rparr>))\<lparr>inbytes := []\<rparr>))) \<and>
   fst (waitingForAuthenticateOk_loop env0 (conn0\<lparr>inbytes := frameBytes 7 [] @ []\<rparr>)) =
     Fatal
       ''mysqlXConn.waitingfor_SESS_AUTHENTICATE_OK: Received unexpected message type: %s, expecting: %s''
       [ArgInt 7, ArgInt ServerMessages_OK] \<and>
   inbytes (snd (waitingForAuthenticateOk_loop env0 (conn0\<lparr>inbytes := frameBytes 7 [] @ []\<rparr>)))
     = []"
  using unexpected_message_at_wait_loops
          [of 7 "[]" "conn0\<lparr>inbytes := frameBytes 7 [] @ []\<rparr>" "[]" env0]
  by (simp add: ServerMessages_defs)

text \<open>C8 as stated fails at the handshake's wait for the result: a frame of type 0, which
  that step does not name, ends the process there.\<close>

theorem unexpected_message_counterexample:
  "fst (waitingForAuthenticateOk env0 (conn0\<lparr>inbytes := [1, 0, 0, 0, 0]\<rparr>)) =
     Fatal
       ''mysqlXConn.waitingfor_SESS_AUTHENTICATE_OK: Received unexpected message type: %s, expecting: %s''
       [ArgInt 0, ArgInt 0]"
proof -
  have r: "readMsg (debugMsg ''WaitingForAuthenticateOk: wait for message...'' []
              (debugMsg ''WaitingForAuthenticateOk: starting'' []
                 (conn0\<lparr>inbytes := [1, 0, 0, 0, 0]\<rparr>))) =
           (Ok \<lparr>msgType = 0, payload = None\<rparr>,
            debugMsg ''S -> C: len: %d, type: %d [%s], payload: %+v''
              [ArgInt 5, ArgInt 0, ArgInt 0, ArgBytes []]
              ((debugMsg ''WaitingForAuthenticateOk: wait for message...'' []
                  (debugMsg ''WaitingForAuthenticateOk: starting'' []
                     (conn0\<lparr>inbytes := [1, 0, 0, 0, 0]\<rparr>)))\<lparr>inbytes := []\<rparr>))"
    using readMsg_frameBytes [of 0 "[]" _ "[]"]
    by (simp add: frameBytes_def)
  show ?thesis
    unfolding waitingForAuthenticateOk_def
    by (simp add: waitingForAuthenticateOk_loop_other [OF r] ServerMessages_defs)
qed


section \<open>Authentication handshake: facts\<close>

lemma writeProtobufPacket_open:
  assumes "\<not> closed mc" "wlimit mc = None" "msgType p \<le> 255"
  shows "\<not> closed (snd (writeProtobufPacket (Some p) mc)) \<and>
         wlimit (snd (writeProtobufPacket (Some p) mc)) = None \<and>
         maxPacketAllowed (snd (writeProtobufPacket (Some p) mc)) = maxPacketAllowed mc"
  using assms by (simp add: writeProtobufPacket_def netWrite_def Let_def)

lemma writeSessAuthenticateStart_open:
  assumes "\<not> closed mc" "wlimit mc = None"
  shows "\<not> closed (snd (writeSessAuthenticateStart E m a mc)) \<and>
         wlimit (snd (writeSessAuthenticateStart E m a mc)) = None \<and>
         maxPacketAllowed (snd (writeSessAuthenticateStart E m a mc)) = maxPacketAllowed mc"
  using assms writeProtobufPacket_open
  by (simp add: writeSessAuthenticateStart_def Let_def
        ClientMessages_SESS_AUTHENTICATE_START_def split: sum.splits)

text \<open>The handshake up to the check of the nonce.\<close>

lemma AuthenticateMySQL41_await_nonce:
  assumes t: "0 \<le> t" "t \<le> 255" and len: "int (length body) + 1 < 2 ^ 32"
    and inb: "inbytes mc = frameBytes t body @ rest"
    and r: "r = debugMsg ''S -> C: len: %d, type: %d [%s], payload: %+v''
             [ArgInt (5 + int (length body)), ArgInt t, ArgInt t, ArgBytes body]
             ((snd (writeSessAuthenticateStart E ''MYSQL41''
                     (GetInitialAuthData (NewMySQL41 E (cfg_dbname mc) (cfg_user mc) (cfg_passwd mc)))
                     (debugMsg ''AuthenticateMySQL41(db: %q, user: %q, passwd: <not shown>)''
                        [ArgStr (cfg_dbname mc), ArgStr (cfg_user mc)] mc)))\<lparr>inbytes := rest\<rparr>)"
  shows "t \<noteq> ServerMessages_SESS_AUTHENTICATE_CONTINUE \<Longrightarrow>
           AuthenticateMySQL41 E mc =
             (Err (Errorf ''Got unexpected message type back: %s, expecting: %s''
                     [ArgInt t, ArgInt ServerMessages_SESS_AUTHENTICATE_CONTINUE]), r)"
    and "t = ServerMessages_SESS_AUTHENTICATE_CONTINUE \<Longrightarrow>
         unmarshal_AuthenticateContinue E body = Inl err \<Longrightarrow>
           AuthenticateMySQL41 E mc =
             (Fatal ''unmarshaling error with authenticateContinue: '' [ArgErr err], r)"
    and "t = ServerMessages_SESS_AUTHENTICATE_CONTINUE \<Longrightarrow>
         unmarshal_AuthenticateContinue E body = Inr a \<Longrightarrow> length a \<noteq> 20 \<Longrightarrow>
           AuthenticateMySQL41 E mc =
             (Err (Errorf ''Received %d bytes from server, expecting: 20''
                     [ArgInt (int (length a))]),
              debugMsg ''readSessAuthenticateContinue: %+v'' [ArgBytes a] r)"
proof -
  let ?mc0 = "debugMsg ''AuthenticateMySQL41(db: %q, user: %q, passwd: <not shown>)''
                        [ArgStr (cfg_dbname mc), ArgStr (cfg_user mc)] mc"
  let ?mc1 = "snd (writeSessAuthenticateStart E ''MYSQL41''
                     (GetInitialAuthData (NewMySQL41 E (cfg_dbname mc) (cfg_user mc) (cfg_passwd mc)))
                     ?mc0)"
  have cfg: "cfg_dbname ?mc0 = cfg_dbname mc" "cfg_user ?mc0 = cfg_user mc"
    "cfg_passwd ?mc0 = cfg_passwd mc"
    by (simp_all add: debugMsg_def)
  have in1: "inbytes ?mc1 = frameBytes t body @ rest" using inb by simp
  have rd: "readMsg ?mc1 =
     (Ok \<lparr>msgType = t, payload = (if body = [] then None else Some body)\<rparr>, r)"
    unfolding r by (rule readMsg_frameBytes [OF t len in1])
  show "t \<noteq> ServerMessages_SESS_AUTHENTICATE_CONTINUE \<Longrightarrow>
           AuthenticateMySQL41 E mc =
             (Err (Errorf ''Got unexpected message type back: %s, expecting: %s''
                     [ArgInt t, ArgInt ServerMessages_SESS_AUTHENTICATE_CONTINUE]), r)"
    by (simp add: AuthenticateMySQL41_def Let_def cfg rd)
  show "t = ServerMessages_SESS_AUTHENTICATE_CONTINUE \<Longrightarrow>
         unmarshal_AuthenticateContinue E body = Inl err \<Longrightarrow>
           AuthenticateMySQL41 E mc =
             (Fatal ''unmarshaling error with authenticateContinue: '' [ArgErr err], r)"
    by (simp add: AuthenticateMySQL41_def Let_def cfg rd readSessAuthenticateContinue_def)
  show "t = ServerMessages_SESS_AUTHENTICATE_CONTINUE \<Longrightarrow>
         unmarshal_AuthenticateContinue E body = Inr a \<Longrightarrow> length a \<noteq> 20 \<Longrightarrow>
           AuthenticateMySQL41 E mc =
             (Err (Errorf ''Received %d bytes from server, expecting: 20''
                     [ArgInt (int (length a))]),
              debugMsg ''readSessAuthenticateContinue: %+v'' [ArgBytes a] r)"
    by (simp add: AuthenticateMySQL41_def Let_def cfg rd readSessAuthenticateContinue_def)
qed

text \<open>
  C5. The handshake reads one reply after the start message. If it is not an
  authenticate-continue (an error, a notice, anything else), the handshake returns an
  error at once. If it is one whose auth data is not 20 bytes long, the handshake returns
  an error as well. In both cases exactly that one frame has been read, and the result is
  the same whatever \<^verbatim>\<open>GetNextAuthData\<close> is: the credential transform is not called.
\<close>

theorem AuthenticateMySQL41_strict_nonce:
  assumes t: "0 \<le> t" "t \<le> 255" and len: "int (length body) + 1 < 2 ^ 32"
    and inb: "inbytes mc = frameBytes t body @ rest"
    and bad: "t \<noteq> ServerMessages_SESS_AUTHENTICATE_CONTINUE \<or>
              (\<forall>a. unmarshal_AuthenticateContinue E body = Inr a \<longrightarrow> length a \<noteq> 20)"
  shows "fst (AuthenticateMySQL41 E mc) \<noteq> Ok () \<and>
         inbytes (snd (AuthenticateMySQL41 E mc)) = rest \<and>
         (t \<noteq> ServerMessages_SESS_AUTHENTICATE_CONTINUE \<longrightarrow>
            fst (AuthenticateMySQL41 E mc) =
              Err (Errorf ''Got unexpected message type back: %s, expecting: %s''
                     [ArgInt t, ArgInt ServerMessages_SESS_AUTHENTICATE_CONTINUE])) \<and>
         (\<forall>a. t = ServerMessages_SESS_AUTHENTICATE_CONTINUE \<and>
               unmarshal_AuthenticateContinue E body = Inr a \<longrightarrow>
            fst (AuthenticateMySQL41 E mc) =
              Err (Errorf ''Received %d bytes from server, expecting: 20''
                     [ArgInt (int (length a))])) \<and>
         (\<forall>g. AuthenticateMySQL41
                 (E\<lparr>NewMySQL41 := \<lambda>d u p. (NewMySQL41 E d u p)\<lparr>GetNextAuthData := g\<rparr>\<rparr>) mc
               = AuthenticateMySQL41 E mc)"
proof -
  define r where "r = debugMsg ''S -> C: len: %d, type: %d [%s], payload: %+v''
             [ArgInt (5 + int (length body)), ArgInt t, ArgInt t, ArgBytes body]
             ((snd (writeSessAuthenticateStart E ''MYSQL41''
                     (GetInitialAuthData (NewMySQL41 E (cfg_dbname mc) (cfg_user mc) (cfg_passwd mc)))
                     (debugMsg ''AuthenticateMySQL41(db: %q, user: %q, passwd: <not shown>)''
                        [ArgStr (cfg_dbname mc), ArgStr (cfg_user mc)] mc)))\<lparr>inbytes := rest\<rparr>)"
  note A = AuthenticateMySQL41_await_nonce [OF t len inb r_def]
  have ws: "writeSessAuthenticateStart
              (E\<lparr>NewMySQL41 := \<lambda>d u p. (NewMySQL41 E d u p)\<lparr>GetNextAuthData := g\<rparr>\<rparr>) m a s
            = writeSessAuthenticateStart E m a s" for g m a s
    by (simp add: writeSessAuthenticateStart_def)
  have r': "r = debugMsg ''S -> C: len: %d, type: %d [%s], payload: %+v''
             [ArgInt (5 + int (length body)), ArgInt t, ArgInt t, ArgBytes body]
             ((snd (writeSessAuthenticateStart
                     (E\<lparr>NewMySQL41 := \<lambda>d u p. (NewMySQL41 E d u p)\<lparr>GetNextAuthData := g\<rparr>\<rparr>)
                     ''MYSQL41''
                     (GetInitialAuthData
                        (NewMySQL41 (E\<lparr>NewMySQL41 := \<lambda>d u p. (NewMySQL41 E d u p)\<lparr>GetNextAuthData := g\<rparr>\<rparr>)
                           (cfg_dbname mc) (cfg_user mc) (cfg_passwd mc)))
                     (debugMsg ''AuthenticateMySQL41(db: %q, user: %q, passwd: <not shown>)''
                        [ArgStr (cfg_dbname mc), ArgStr (cfg_user mc)] mc)))\<lparr>inbytes := rest\<rparr>)" for g
    unfolding r_def ws by simp
  note B = AuthenticateMySQL41_await_nonce [OF t len inb r']
  show ?thesis
  proof (cases "t = ServerMessages_SESS_AUTHENTICATE_CONTINUE")
    case False
    show ?thesis using A(1) [OF False] B(1) [OF False] False by (simp add: r_def)
  next
    case True
    show ?thesis
    proof (cases "unmarshal_AuthenticateContinue E body")
      case (Inl err)
      have u: "unmarshal_AuthenticateContinue
                 (E\<lparr>NewMySQL41 := \<lambda>d u p. (NewMySQL41 E d u p)\<lparr>GetNextAuthData := g\<rparr>\<rparr>) body
               = Inl err" for g
        using Inl by simp
      show ?thesis using A(2) [OF True Inl] B(2) [OF True u] Inl True by (simp add: r_def)
    next
      case (Inr a)
      have u: "unmarshal_AuthenticateContinue
                 (E\<lparr>NewMySQL41 := \<lambda>d u p. (NewMySQL41 E d u p)\<lparr>GetNextAuthData := g\<rparr>\<rparr>) body
               = Inr a" for g
        using Inr by simp
      have n: "length a \<noteq> 20" using bad True Inr by simp
      show ?thesis using A(3) [OF True Inr n] B(3) [OF True u n] Inr True by (simp add: r_def)
    qed
  qed
qed


theorem AuthenticateMySQL41_strict_nonce_witness:
  "fst (AuthenticateMySQL41 env1
          (conn0\<lparr>inbytes := frameBytes ServerMessages_SESS_AUTHENTICATE_CONTINUE [1, 2, 3] @ [5]\<rparr>))
     = Err (Errorf ''Received %d bytes from server, expecting: 20'' [ArgInt 3]) \<and>
   inbytes (snd (AuthenticateMySQL41 env1
          (conn0\<lparr>inbytes := frameBytes ServerMessages_SESS_AUTHENTICATE_CONTINUE [1, 2, 3] @ [5]\<rparr>)))
     = [5]"
  using AuthenticateMySQL41_strict_nonce
          [of ServerMessages_SESS_AUTHENTICATE_CONTINUE "[1, 2, 3]"
              "conn0\<lparr>inbytes := frameBytes ServerMessages_SESS_AUTHENTICATE_CONTINUE [1, 2, 3] @ [5]\<rparr>"
              "[5]" env1]
  by (simp add: ServerMessages_defs env1_def)

lemma errorMsg_decoded:
  assumes "unmarshal_Error E data = Inr e" "eCode e = Some c" "eSqlState e = Some st"
    "eMsg e = Some m"
  shows "errorMsg E data =
     Ok (Errorf ''%v: %04d [%s] %s''
           [case eSeverity e of None \<Rightarrow> ArgNil | Some sv \<Rightarrow> ArgStr (Severity_String sv),
            ArgInt (int c), ArgStr st, ArgStr m])"
  using assms by (simp add: errorMsg_def errorText_def)

lemma waitingForAuthenticateOk_error:
  assumes len: "int (length ebody) + 1 < 2 ^ 32"
    and inb: "inbytes mc = frameBytes ServerMessages_ERROR ebody @ rest"
    and err: "errorMsg E ebody = Ok e"
  shows "\<exists>mc'. waitingForAuthenticateOk E mc = (Err e, mc') \<and> inbytes mc' = rest"
proof -
  have t: "0 \<le> ServerMessages_ERROR" "ServerMessages_ERROR \<le> 255"
    by (simp_all add: ServerMessages_defs)
  have inb': "inbytes (debugMsg ''WaitingForAuthenticateOk: wait for message...'' []
                 (debugMsg ''WaitingForAuthenticateOk: starting'' [] mc))
                = frameBytes ServerMessages_ERROR ebody @ rest"
    using inb by simp
  note rd = readMsg_frameBytes [OF t len inb']
  show ?thesis
    unfolding waitingForAuthenticateOk_def
    by (subst waitingForAuthenticateOk_loop_error [OF rd]) (simp_all add: err)
qed

text \<open>
  C7. The peer sends a 20-byte nonce and, after the client's response, a structured
  error. \<^verbatim>\<open>waitingForAuthenticateOk\<close> returns the decoded error as \<^verbatim>\<open>errorText\<close> renders
  it, and \<^verbatim>\<open>AuthenticateMySQL41\<close> returns it to its caller inside its own message. The
  frames read are the nonce and the error: what follows the error frame is left unread.
\<close>

theorem AuthenticateMySQL41_failure_path:
  assumes tr: "\<not> closed mc" "wlimit mc = None"
    and inb: "inbytes mc = frameBytes ServerMessages_SESS_AUTHENTICATE_CONTINUE cbody @
                           frameBytes ServerMessages_ERROR ebody @ rest"
    and len: "int (length cbody) + 1 < 2 ^ 32" "int (length ebody) + 1 < 2 ^ 32"
    and nonce: "unmarshal_AuthenticateContinue E cbody = Inr nonce" "length nonce = 20"
    and resp: "GetNextAuthData (NewMySQL41 E (cfg_dbname mc) (cfg_user mc) (cfg_passwd mc)) nonce
                 = Inr response"
              "marshal_AuthenticateContinue E response = Inr data"
              "int (length data) + 1 \<le> maxPacketAllowed mc"
    and err: "unmarshal_Error E ebody = Inr e" "eCode e = Some c" "eSqlState e = Some st"
             "eMsg e = Some m"
  shows "fst (AuthenticateMySQL41 E mc) =
           Err (Errorf
                  ''Failed to read message response from our SESS_AUTHENTICATE_CONTINUE: %v''
                  [ArgErr (Errorf ''%v: %04d [%s] %s''
                     [case eSeverity e of None \<Rightarrow> ArgNil
                      | Some sv \<Rightarrow> ArgStr (Severity_String sv),
                      ArgInt (int c), ArgStr st, ArgStr m])]) \<and>
         inbytes (snd (AuthenticateMySQL41 E mc)) = rest"
proof -
  let ?C = ServerMessages_SESS_AUTHENTICATE_CONTINUE
  have t: "0 \<le> ?C" "?C \<le> 255" by (simp_all add: ServerMessages_defs)
  define mc0 where "mc0 = debugMsg ''AuthenticateMySQL41(db: %q, user: %q, passwd: <not shown>)''
                        [ArgStr (cfg_dbname mc), ArgStr (cfg_user mc)] mc"
  define mc1 where "mc1 = snd (writeSessAuthenticateStart E ''MYSQL41''
      (GetInitialAuthData (NewMySQL41 E (cfg_dbname mc) (cfg_user mc) (cfg_passwd mc))) mc0)"
  have cfg: "cfg_dbname mc0 = cfg_dbname mc" "cfg_user mc0 = cfg_user mc"
    "cfg_passwd mc0 = cfg_passwd mc"
    by (simp_all add: mc0_def debugMsg_def)
  have o0: "\<not> closed mc0" "wlimit mc0 = None" using tr by (simp_all add: mc0_def)
  have o1: "\<not> closed mc1" "wlimit mc1 = None" "maxPacketAllowed mc1 = maxPacketAllowed mc"
    using writeSessAuthenticateStart_open [OF o0] by (simp_all add: mc1_def mc0_def)
  have in1: "inbytes mc1 = frameBytes ?C cbody @ (frameBytes ServerMessages_ERROR ebody @ rest)"
    using inb by (simp add: mc1_def mc0_def)
  define p where "p = \<lparr>msgType = ?C, payload = (if cbody = [] then None else Some cbody)\<rparr>"
  define mc2 where "mc2 = debugMsg ''S -> C: len: %d, type: %d [%s], payload: %+v''
        [ArgInt (5 + int (length cbody)), ArgInt ?C, ArgInt ?C, ArgBytes cbody]
        (mc1\<lparr>inbytes := frameBytes ServerMessages_ERROR ebody @ rest\<rparr>)"
  have rd: "readMsg mc1 = (Ok p, mc2)"
    unfolding p_def mc2_def by (rule readMsg_frameBytes [OF t len(1) in1])
  define mc3 where "mc3 = debugMsg ''readSessAuthenticateContinue: %+v'' [ArgBytes nonce] mc2"
  have rc: "readSessAuthenticateContinue E p mc2 = (Ok nonce, mc3)"
    by (simp add: readSessAuthenticateContinue_def p_def nonce mc3_def)
  define mc4 where "mc4 = snd (writeSessAuthenticateContinue E response mc3)"
  have o3: "\<not> closed (debugMsg ''writeSessAuthenticateContinue: %+v'' [ArgBytes response] mc3)"
    "wlimit (debugMsg ''writeSessAuthenticateContinue: %+v'' [ArgBytes response] mc3) = None"
    "int (length data) + 1
       \<le> maxPacketAllowed (debugMsg ''writeSessAuthenticateContinue: %+v'' [ArgBytes response] mc3)"
    using o1 resp(3) by (simp_all add: mc3_def mc2_def)
  have wc: "writeSessAuthenticateContinue E response mc3 = (Ok (), mc4)"
    unfolding mc4_def writeSessAuthenticateContinue_def Let_def resp(2)
    using writeProtobufPacket_ok
            [of "\<lparr>msgType = ClientMessages_SESS_AUTHENTICATE_CONTINUE, payload = Some data\<rparr>"
                "debugMsg ''writeSessAuthenticateContinue: %+v'' [ArgBytes response] mc3"] o3
    by (simp add: ClientMessages_SESS_AUTHENTICATE_CONTINUE_def bytes_of_def)
  have in4: "inbytes mc4 = frameBytes ServerMessages_ERROR ebody @ rest"
    by (simp add: mc4_def writeSessAuthenticateContinue_def Let_def resp(2) mc3_def mc2_def)
  from waitingForAuthenticateOk_error [OF len(2) in4 errorMsg_decoded [OF err]]
  obtain mc5 where
    w: "waitingForAuthenticateOk E mc4 =
          (Err (Errorf ''%v: %04d [%s] %s''
                 [case eSeverity e of None \<Rightarrow> ArgNil | Some sv \<Rightarrow> ArgStr (Severity_String sv),
                  ArgInt (int c), ArgStr st, ArgStr m]), mc5)"
       "inbytes mc5 = rest"
    by blast
  have "AuthenticateMySQL41 E mc =
     (Err (Errorf
                  ''Failed to read message response from our SESS_AUTHENTICATE_CONTINUE: %v''
                  [ArgErr (Errorf ''%v: %04d [%s] %s''
                     [case eSeverity e of None \<Rightarrow> ArgNil
                      | Some sv \<Rightarrow> ArgStr (Severity_String sv),
                      ArgInt (int c), ArgStr st, ArgStr m])]), mc5)"
    unfolding AuthenticateMySQL41_def Let_def mc0_def [symmetric] cfg mc1_def [symmetric]
    by (simp add: rd p_def [symmetric] rc wc w nonce(2) resp(1)) (simp add: p_def)
  then show ?thesis using w(2) by simp
qed


theorem AuthenticateMySQL41_failure_path_witness:
  "fst (AuthenticateMySQL41 env1 conn2) =
     Err (Errorf ''Failed to read message response from our SESS_AUTHENTICATE_CONTINUE: %v''
            [ArgErr (Errorf ''%v: %04d [%s] %s''
               [ArgStr ''ERROR'', ArgInt 1045, ArgStr ''HY000'',
                ArgStr ''Invalid user or password''])]) \<and>
   inbytes (snd (AuthenticateMySQL41 env1 conn2)) = []"
proof -
  have c: "\<not> closed conn2" "wlimit conn2 = None"
    "inbytes conn2 = frameBytes ServerMessages_SESS_AUTHENTICATE_CONTINUE (replicate 20 7) @
                     frameBytes ServerMessages_ERROR [9] @ []"
    by (simp_all add: conn2_def conn0_def)
  show ?thesis
    using AuthenticateMySQL41_failure_path
            [OF c, of env1 "replicate 20 7" "replicate 20 7" "replicate 20 7"
               "\<lparr>eSeverity = Some Severity_ERROR, eCode = Some 1045, eSqlState = Some ''HY000'',
                 eMsg = Some ''Invalid user or password''\<rparr>"
               1045 "''HY000''" "''Invalid user or password''"]
    by (simp add: env1_def env0_def conn2_def conn0_def Severity_String_def)
qed

section \<open>Decode failures\<close>

lemma errorMsg_unmarshal_failure:
  "unmarshal_Error E data = Inl err \<Longrightarrow>
   errorMsg E data = Fatal ''unmarshaling error with e: '' [ArgErr err]"
  by (simp add: errorMsg_def)

lemma errorMsg_field_absent:
  "unmarshal_Error E data = Inr e \<Longrightarrow> eCode e = None \<or> eSqlState e = None \<or> eMsg e = None \<Longrightarrow>
   errorMsg E data = Panic"
  by (auto simp: errorMsg_def errorText_def split: option.splits)

text \<open>
  C9 at a payload the codec rejects, as it rejects one that lacks a required field:
  \<^verbatim>\<open>errorMsg\<close> ends the process through \<^verbatim>\<open>log.Fatal\<close>. And \<^verbatim>\<open>errorText\<close> on a decoded
  error whose code is absent dereferences the nil pointer. Neither returns an error value.
\<close>

theorem errorMsg_decode_failure_aborts:
  "errorMsg env0 [] = Fatal ''unmarshaling error with e: '' [ArgErr (ErrCodec ''proto: bad wire data'')] \<and>
   errorText (Some \<lparr>eSeverity = Some Severity_ERROR, eCode = None, eSqlState = Some ''HY000'',
                    eMsg = Some ''Invalid user or password''\<rparr>) = Panic"
  by (simp add: errorMsg_def errorText_def env0_def)

text \<open>
  C2 at a notice whose envelope decodes and whose inner payload does not, for each of the
  three kinds: \<^verbatim>\<open>processNotice\<close> ends the process through \<^verbatim>\<open>log.Fatalf\<close> and returns
  nothing to its caller.
\<close>

theorem processNotice_inner_decode_failure_aborts:
  "fst (processNotice (env0\<lparr>unmarshal_Frame := \<lambda>b. Inr \<lparr>fType = 1, fScope = 1, fPayload = [255]\<rparr>\<rparr>)
          ''waitingForAuthenticateOk''
          (conn0\<lparr>pb := Some \<lparr>msgType = ServerMessages_NOTICE, payload = Some [8, 1, 26, 1, 255]\<rparr>\<rparr>))
     = Fatal ''error unmarshaling Warning w: %v'' [ArgErr (ErrCodec ''proto: bad wire data'')] \<and>
   fst (processNotice (env0\<lparr>unmarshal_Frame := \<lambda>b. Inr \<lparr>fType = 2, fScope = 1, fPayload = [255]\<rparr>\<rparr>)
          ''waitingForAuthenticateOk''
          (conn0\<lparr>pb := Some \<lparr>msgType = ServerMessages_NOTICE, payload = Some [8, 2, 26, 1, 255]\<rparr>\<rparr>))
     = Fatal ''error unmarshaling SessionVariableChanged s: %v''
         [ArgErr (ErrCodec ''proto: bad wire data'')] \<and>
   fst (processNotice (env0\<lparr>unmarshal_Frame := \<lambda>b. Inr \<lparr>fType = 3, fScope = 1, fPayload = [255]\<rparr>\<rparr>)
          ''waitingForAuthenticateOk''
          (conn0\<lparr>pb := Some \<lparr>msgType = ServerMessages_NOTICE, payload = Some [8, 3, 26, 1, 255]\<rparr>\<rparr>))
     = Fatal ''error unmarshaling SessionStateChanged s: %v''
         [ArgErr (ErrCodec ''proto: bad wire data'')]"
  by (simp add: processNotice_def Let_def env0_def conn0_def debugMsg_def)

end
